theory Spec2Isabelle
  imports Main "HOL-Library.Sublist"
begin

section \<open>Strings\<close>

text \<open>
  Python's \<open>str\<close> is modelled by \<open>string\<close>, read as the UTF-8 bytes of the text. The
  scripts only ever compare against ASCII text, so \<open>lower\<close> changes the ASCII capitals and
  leaves every other byte alone, and \<open>strip\<close> removes the ASCII white space that
  \<open>str.strip()\<close> removes. The symbols the scripts print in front of their messages are
  written out as their UTF-8 bytes.
\<close>

definition lower_char :: "char \<Rightarrow> char" where
  "lower_char c =
     (case map_of (zip ''ABCDEFGHIJKLMNOPQRSTUVWXYZ'' ''abcdefghijklmnopqrstuvwxyz'') c of
        Some d \<Rightarrow> d
      | None \<Rightarrow> c)"

definition lower :: "string \<Rightarrow> string" where
  "lower s = map lower_char s"

text \<open>\<open>needle in haystack\<close> on strings: the needle occurs as a contiguous run.\<close>

fun contains :: "string \<Rightarrow> string \<Rightarrow> bool" where
  "contains needle [] = (needle = [])"
| "contains needle (c # cs) = (prefix needle (c # cs) \<or> contains needle cs)"

definition is_space :: "char \<Rightarrow> bool" where
  "is_space c =
     (c \<in> set [CHR 0x09, CHR 0x0A, CHR 0x0B, CHR 0x0C, CHR 0x0D,
                CHR 0x1C, CHR 0x1D, CHR 0x1E, CHR 0x1F, CHR 0x20])"

definition strip :: "string \<Rightarrow> string" where
  "strip s = rev (dropWhile is_space (rev (dropWhile is_space s)))"

text \<open>\<open>s.split(sep)\<close> with a one-character separator: empty fields are kept.\<close>

fun split_on :: "char \<Rightarrow> string \<Rightarrow> string list" where
  "split_on sep [] = [[]]"
| "split_on sep (c # cs) =
     (if c = sep then [] # split_on sep cs
      else (case split_on sep cs of
              [] \<Rightarrow> [[c]]
            | w # ws \<Rightarrow> (c # w) # ws))"

text \<open>\<open>sep.join(xs)\<close>.\<close>

fun join :: "string \<Rightarrow> string list \<Rightarrow> string" where
  "join sep [] = []"
| "join sep [x] = x"
| "join sep (x # y # ys) = x @ sep @ join sep (y # ys)"

definition digit_char :: "nat \<Rightarrow> char" where
  "digit_char d = ''0123456789'' ! d"

text \<open>\<open>str(n)\<close> for a non-negative integer.\<close>

fun str_nat :: "nat \<Rightarrow> string" where
  "str_nat n = (if n < 10 then [digit_char n] else str_nat (n div 10) @ [digit_char (n mod 10)])"

declare str_nat.simps [simp del]

text \<open>\<open>str(n)\<close> for an integer, as in the f-string of a return code.\<close>

definition str_int :: "int \<Rightarrow> string" where
  "str_int i = (if i < 0 then CHR ''-'' # str_nat (nat (- i)) else str_nat (nat i))"

definition newline :: char where "newline = CHR 0x0A"
definition tab :: char where "tab = CHR 0x09"

definition emoji_rocket :: string where
  "emoji_rocket = [CHR 0xF0, CHR 0x9F, CHR 0x9A, CHR 0x80]"
definition emoji_cross :: string where
  "emoji_cross = [CHR 0xE2, CHR 0x9D, CHR 0x8C]"
definition emoji_check :: string where
  "emoji_check = [CHR 0xE2, CHR 0x9C, CHR 0x85]"
definition emoji_glass :: string where
  "emoji_glass = [CHR 0xF0, CHR 0x9F, CHR 0x94, CHR 0x8D]"
definition emoji_package :: string where
  "emoji_package = [CHR 0xF0, CHR 0x9F, CHR 0x93, CHR 0xA6]"
definition emoji_hourglass :: string where
  "emoji_hourglass = [CHR 0xE2, CHR 0x8F, CHR 0xB3]"
definition emoji_hammer :: string where
  "emoji_hammer = [CHR 0xF0, CHR 0x9F, CHR 0x94, CHR 0xA8]"
definition emoji_memo :: string where
  "emoji_memo = [CHR 0xF0, CHR 0x9F, CHR 0x93, CHR 0x9D]"
definition emoji_warning :: string where
  "emoji_warning = [CHR 0xE2, CHR 0x9A, CHR 0xA0, CHR 0xEF, CHR 0xB8, CHR 0x8F]"
definition emoji_broom :: string where
  "emoji_broom = [CHR 0xF0, CHR 0x9F, CHR 0xA7, CHR 0xB9]"
definition emoji_stop :: string where
  "emoji_stop = [CHR 0xF0, CHR 0x9F, CHR 0x9B, CHR 0x91]"
definition emoji_frame :: string where
  "emoji_frame = [CHR 0xF0, CHR 0x9F, CHR 0x96, CHR 0xBC, CHR 0xEF, CHR 0xB8, CHR 0x8F]"
definition emoji_plug :: string where
  "emoji_plug = [CHR 0xF0, CHR 0x9F, CHR 0x94, CHR 0x8C]"
definition emoji_whale :: string where
  "emoji_whale = [CHR 0xF0, CHR 0x9F, CHR 0x90, CHR 0xB3]"
definition emoji_tube :: string where
  "emoji_tube = [CHR 0xF0, CHR 0x9F, CHR 0xA7, CHR 0xAA]"
definition emoji_bulb :: string where
  "emoji_bulb = [CHR 0xF0, CHR 0x9F, CHR 0x92, CHR 0xA1]"


section \<open>The world the scripts run in\<close>

text \<open>
  A path is the list of its components below the root; \<open>Path(__file__)\<close> is taken to be
  absolute. \<open>str(path)\<close> is rendered the POSIX way.
\<close>

type_synonym path = "string list"

definition parent :: "path \<Rightarrow> path" where
  "parent p = butlast p"

definition str_path :: "path \<Rightarrow> string" where
  "str_path p = (if p = [] then ''/'' else concat (map (\<lambda>c. CHR ''/'' # c) p))"

text \<open>
  The file system: every path that exists, with what it is. An archive written by
  \<open>zipfile\<close> is a regular file that remembers its entries, one pair of source file and
  archive name for each \<open>zipf.write(file, arcname)\<close>. The calls into the file system
  (\<open>os.chdir\<close>, \<open>shutil.rmtree\<close>, \<open>Path.unlink\<close>, \<open>zipfile\<close>) are taken to succeed.
\<close>

datatype node = Dir | File | Archive "(path \<times> path) list"

type_synonym filesys = "(path \<times> node) list"

definition path_exists :: "filesys \<Rightarrow> path \<Rightarrow> bool" where
  "path_exists f p = (map_of f p \<noteq> None)"

definition is_file :: "filesys \<Rightarrow> path \<Rightarrow> bool" where
  "is_file f p = (case map_of f p of None \<Rightarrow> False | Some Dir \<Rightarrow> False | Some _ \<Rightarrow> True)"

definition rmtree_fs :: "filesys \<Rightarrow> path \<Rightarrow> filesys" where
  "rmtree_fs f p = filter (\<lambda>(q, _). \<not> prefix p q) f"

definition unlink_fs :: "filesys \<Rightarrow> path \<Rightarrow> filesys" where
  "unlink_fs f p = filter (\<lambda>(q, _). q \<noteq> p) f"

text \<open>\<open>d.rglob('*')\<close>: everything strictly below \<open>d\<close>, directories included.\<close>

definition rglob :: "filesys \<Rightarrow> path \<Rightarrow> path list" where
  "rglob f d = filter (strict_prefix d) (map fst f)"

definition relative_to :: "path \<Rightarrow> path \<Rightarrow> path" where
  "relative_to q d = drop (length d) q"

text \<open>What the operating system, the network and the operator answer.\<close>

datatype proc_outcome = NotFound | Exited int string string

datatype timed_outcome = Expired | Completed proc_outcome

datatype http_error = UrlError string | OsError string | TimedOut string | OtherError string

datatype http_outcome = Response nat string | Fails http_error

datatype json =
    JNull | JBool bool | JNumber string | JString string
  | JArray "json list" | JObject "(string \<times> json) list"

text \<open>
  The exceptions the scripts raise or handle. \<open>CalledProcessError\<close> carries the return
  code and the \<open>stderr\<close> attribute (\<open>None\<close> when the output was not captured).
\<close>

datatype exn =
    SystemExit int
  | FileNotFoundError
  | CalledProcessError int "string option"
  | TimeoutExpired
  | EOFError
  | URLError string
  | OSError string
  | TimeoutError string
  | OtherException string

text \<open>
  The environment is a parameter of every script: how a child process started in a
  working directory ends and what it leaves on disk, how a GET with a timeout ends, what
  the operator types at a prompt (\<open>None\<close>: end of input), what the passing of time does,
  and three library functions: \<open>json.loads(response.read().decode())\<close> (\<open>None\<close> when
  it raises), \<open>str\<close> of a parsed value and \<open>str\<close> of an exception. The state of everything outside the process is
  the type variable \<open>'w\<close>.
\<close>

record 'w env =
  script_file :: path
  proc :: "string list \<Rightarrow> path \<Rightarrow> filesys \<Rightarrow> 'w \<Rightarrow> proc_outcome \<times> filesys \<times> 'w"
  proc_timed :: "string list \<Rightarrow> nat \<Rightarrow> path \<Rightarrow> filesys \<Rightarrow> 'w \<Rightarrow> timed_outcome \<times> filesys \<times> 'w"
  http :: "string \<Rightarrow> nat \<Rightarrow> 'w \<Rightarrow> http_outcome \<times> 'w"
  stdin :: "string \<Rightarrow> 'w \<Rightarrow> string option \<times> 'w"
  sleep :: "nat \<Rightarrow> 'w \<Rightarrow> 'w"
  json_loads :: "string \<Rightarrow> json option"
  py_str :: "json \<Rightarrow> string"
  exn_str :: "exn \<Rightarrow> string"

record 'w state =
  cwd :: path
  fs :: filesys
  world :: 'w

text \<open>What a run does that can be observed from outside, in order.\<close>

datatype event =
    Print string
  | Run "string list" bool bool "nat option"
  | HttpGet string nat http_outcome
  | Input string "string option"
  | Sleep nat
  | Chdir path
  | Rmtree path
  | Unlink path
  | ZipWrite path "(path \<times> path) list"

text \<open>
  A piece of script takes the state and gives its value or the exception it raised, the
  events it caused and the new state.
\<close>

type_synonym ('a, 'w) prog = "'w state \<Rightarrow> (exn + 'a) \<times> event list \<times> 'w state"

definition ret :: "'a \<Rightarrow> ('a, 'w) prog" where
  "ret x = (\<lambda>s. (Inr x, [], s))"

definition raise :: "exn \<Rightarrow> ('a, 'w) prog" where
  "raise e = (\<lambda>s. (Inl e, [], s))"

definition bnd :: "('a, 'w) prog \<Rightarrow> ('a \<Rightarrow> ('b, 'w) prog) \<Rightarrow> ('b, 'w) prog" where
  "bnd m k = (\<lambda>s.
     case m s of
       (Inl e, evs, s') \<Rightarrow> (Inl e, evs, s')
     | (Inr x, evs, s') \<Rightarrow> (case k x s' of (r, evs', s'') \<Rightarrow> (r, evs @ evs', s'')))"

definition seq :: "('a, 'w) prog \<Rightarrow> ('b, 'w) prog \<Rightarrow> ('b, 'w) prog" where
  "seq m n = bnd m (\<lambda>_. n)"

text \<open>\<open>try: m except ...: h\<close>: the handler says which exceptions it catches.\<close>

definition try_except :: "('a, 'w) prog \<Rightarrow> (exn \<Rightarrow> ('a, 'w) prog option) \<Rightarrow> ('a, 'w) prog" where
  "try_except m h = (\<lambda>s.
     case m s of
       (Inr x, evs, s') \<Rightarrow> (Inr x, evs, s')
     | (Inl e, evs, s') \<Rightarrow>
         (case h e of
            None \<Rightarrow> (Inl e, evs, s')
          | Some k \<Rightarrow> (case k s' of (r, evs', s'') \<Rightarrow> (r, evs @ evs', s''))))"

text \<open>\<open>try: m finally: h\<close>: the clean-up runs on every way out of \<open>m\<close>.\<close>

definition try_finally :: "('a, 'w) prog \<Rightarrow> (unit, 'w) prog \<Rightarrow> ('a, 'w) prog" where
  "try_finally m h = (\<lambda>s.
     case m s of
       (r, evs, s') \<Rightarrow>
         (case h s' of
            (Inl e, evs', s'') \<Rightarrow> (Inl e, evs @ evs', s'')
          | (Inr _, evs', s'') \<Rightarrow> (r, evs @ evs', s'')))"

definition sys_exit :: "int \<Rightarrow> ('a, 'w) prog" where
  "sys_exit n = raise (SystemExit n)"

definition print :: "string \<Rightarrow> (unit, 'w) prog" where
  "print msg = (\<lambda>s. (Inr (), [Print msg], s))"

definition when_do :: "bool \<Rightarrow> (unit, 'w) prog \<Rightarrow> (unit, 'w) prog" where
  "when_do b m = (if b then m else ret ())"

text \<open>The status the process ends with: an uncaught exception ends it with 1.\<close>

definition exit_status :: "exn + 'a \<Rightarrow> int" where
  "exit_status r = (case r of Inr _ \<Rightarrow> 0 | Inl (SystemExit n) \<Rightarrow> n | Inl _ \<Rightarrow> 1)"

definition get_cwd :: "(path, 'w) prog" where
  "get_cwd = (\<lambda>s. (Inr (cwd s), [], s))"

definition chdir :: "path \<Rightarrow> (unit, 'w) prog" where
  "chdir p = (\<lambda>s. (Inr (), [Chdir p], s\<lparr>cwd := p\<rparr>))"

definition exists :: "path \<Rightarrow> (bool, 'w) prog" where
  "exists p = (\<lambda>s. (Inr (path_exists (fs s) p), [], s))"

definition rmtree :: "path \<Rightarrow> (unit, 'w) prog" where
  "rmtree p = (\<lambda>s. (Inr (), [Rmtree p], s\<lparr>fs := rmtree_fs (fs s) p\<rparr>))"

definition unlink :: "path \<Rightarrow> (unit, 'w) prog" where
  "unlink p = (\<lambda>s. (Inr (), [Unlink p], s\<lparr>fs := unlink_fs (fs s) p\<rparr>))"

definition time_sleep :: "'w env \<Rightarrow> nat \<Rightarrow> (unit, 'w) prog" where
  "time_sleep env n = (\<lambda>s. (Inr (), [Sleep n], s\<lparr>world := sleep env n (world s)\<rparr>))"

text \<open>\<open>input(prompt)\<close>.\<close>

definition input :: "'w env \<Rightarrow> string \<Rightarrow> (string, 'w) prog" where
  "input env prompt = (\<lambda>s.
     case stdin env prompt (world s) of
       (None, w) \<Rightarrow> (Inl EOFError, [Input prompt None], s\<lparr>world := w\<rparr>)
     | (Some a, w) \<Rightarrow> (Inr a, [Input prompt (Some a)], s\<lparr>world := w\<rparr>))"

definition exn_of_http_error :: "http_error \<Rightarrow> exn" where
  "exn_of_http_error e =
     (case e of
        UrlError r \<Rightarrow> URLError r
      | OsError m \<Rightarrow> OSError m
      | TimedOut m \<Rightarrow> TimeoutError m
      | OtherError m \<Rightarrow> OtherException m)"

text \<open>\<open>urllib.request.urlopen(url, timeout=t)\<close>: the status and the body of the response.\<close>

definition urlopen :: "'w env \<Rightarrow> string \<Rightarrow> nat \<Rightarrow> (nat \<times> string, 'w) prog" where
  "urlopen env url t = (\<lambda>s.
     case http env url t (world s) of
       (Response status body, w) \<Rightarrow>
         (Inr (status, body), [HttpGet url t (Response status body)], s\<lparr>world := w\<rparr>)
     | (Fails e, w) \<Rightarrow>
         (Inl (exn_of_http_error e), [HttpGet url t (Fails e)], s\<lparr>world := w\<rparr>))"

record completed_process =
  returncode :: int
  stdout :: "string option"
  stderr :: "string option"

text \<open>
  \<open>subprocess.run(cmd, check=check, capture_output=capture, text=True)\<close>. An empty
  command line has no \<open>cmd[0]\<close> to start.
\<close>

definition subprocess_run ::
  "'w env \<Rightarrow> string list \<Rightarrow> bool \<Rightarrow> bool \<Rightarrow> (completed_process, 'w) prog" where
  "subprocess_run env cmd check capture = (\<lambda>s.
     if cmd = [] then (Inl (OtherException ''IndexError''), [], s)
     else
       (case proc env cmd (cwd s) (fs s) (world s) of
          (NotFound, f, w) \<Rightarrow>
            (Inl FileNotFoundError, [Run cmd check capture None], s\<lparr>fs := f, world := w\<rparr>)
        | (Exited rc out err, f, w) \<Rightarrow>
            (let res = \<lparr>returncode = rc,
                        stdout = (if capture then Some out else None),
                        stderr = (if capture then Some err else None)\<rparr>
             in (if check \<and> rc \<noteq> 0 then Inl (CalledProcessError rc (stderr res)) else Inr res,
                 [Run cmd check capture None], s\<lparr>fs := f, world := w\<rparr>))))"

text \<open>The same with \<open>timeout=t\<close> and no \<open>check\<close>: the child may be killed at the timeout.\<close>

definition subprocess_run_timeout ::
  "'w env \<Rightarrow> string list \<Rightarrow> nat \<Rightarrow> (completed_process, 'w) prog" where
  "subprocess_run_timeout env cmd t = (\<lambda>s.
     if cmd = [] then (Inl (OtherException ''IndexError''), [], s)
     else
       (case proc_timed env cmd t (cwd s) (fs s) (world s) of
          (Expired, f, w) \<Rightarrow>
            (Inl TimeoutExpired, [Run cmd False True (Some t)], s\<lparr>fs := f, world := w\<rparr>)
        | (Completed NotFound, f, w) \<Rightarrow>
            (Inl FileNotFoundError, [Run cmd False True (Some t)], s\<lparr>fs := f, world := w\<rparr>)
        | (Completed (Exited rc out err), f, w) \<Rightarrow>
            (Inr \<lparr>returncode = rc, stdout = Some out, stderr = Some err\<rparr>,
             [Run cmd False True (Some t)], s\<lparr>fs := f, world := w\<rparr>)))"

text \<open>The truth value of an optional string: \<open>None\<close> and the empty string are false.\<close>

definition truthy :: "string option \<Rightarrow> bool" where
  "truthy v = (case v of None \<Rightarrow> False | Some t \<Rightarrow> t \<noteq> [])"

definition text_of :: "string option \<Rightarrow> string" where
  "text_of v = (case v of None \<Rightarrow> ''None'' | Some t \<Rightarrow> t)"

section \<open>CommandRunner\<close>

text \<open>
  \<open>run_command\<close> of \<open>setup-localstack.py\<close>, \<open>deploy-lambda-localstack.py\<close> and
  \<open>deploy-lambda-localstack-zip.py\<close> (the three are the same text).
\<close>

definition run_command ::
  "'w env \<Rightarrow> string list \<Rightarrow> bool \<Rightarrow> bool \<Rightarrow> (completed_process, 'w) prog" where
  "run_command env cmd check capture_output =
     try_except (subprocess_run env cmd check capture_output)
       (\<lambda>e. case e of
          CalledProcessError rc err \<Rightarrow> Some
            (seq (print (emoji_cross @ '' Error running command: '' @ join '' '' cmd))
            (seq (when_do (truthy err) (print (''Error output: '' @ text_of err)))
                 (sys_exit 1)))
        | FileNotFoundError \<Rightarrow> Some
            (seq (print (emoji_cross @ '' Command not found: '' @ hd cmd))
            (seq (print (''Please ensure '' @ hd cmd @ '' is installed and in your PATH''))
                 (sys_exit 1)))
        | _ \<Rightarrow> None)"

text \<open>
  \<open>run_command\<close> of \<open>teardown-localstack.py\<close>: a failed command is a warning, and the
  caller gets \<open>None\<close>.
\<close>

definition teardown_run_command ::
  "'w env \<Rightarrow> string list \<Rightarrow> bool \<Rightarrow> bool \<Rightarrow> (completed_process option, 'w) prog" where
  "teardown_run_command env cmd check capture_output =
     try_except (bnd (subprocess_run env cmd check capture_output) (\<lambda>result. ret (Some result)))
       (\<lambda>e. case e of
          CalledProcessError rc err \<Rightarrow> Some
            (seq (print (emoji_warning @ ''  Warning: Command failed: '' @ join '' '' cmd))
            (seq (when_do (truthy err) (print (''   '' @ text_of err)))
                 (ret None)))
        | FileNotFoundError \<Rightarrow> Some
            (seq (print (emoji_cross @ '' Command not found: '' @ hd cmd))
            (seq (print (''Please ensure '' @ hd cmd @ '' is installed and in your PATH''))
                 (sys_exit 1)))
        | _ \<Rightarrow> None)"


definition print_step :: "string \<Rightarrow> string \<Rightarrow> (unit, 'w) prog" where
  "print_step message emoji = print (emoji @ '' '' @ message)"

text \<open>\<open>for x in xs: body(x)\<close>.\<close>

primrec for_each :: "'a list \<Rightarrow> ('a \<Rightarrow> (unit, 'w) prog) \<Rightarrow> (unit, 'w) prog" where
  "for_each [] body = ret ()"
| "for_each (x # xs) body = seq (body x) (for_each xs body)"

definition LOCALSTACK_ENDPOINT :: string where
  "LOCALSTACK_ENDPOINT = ''http://localhost:4566''"

definition HEALTH_CHECK_URL :: string where
  "HEALTH_CHECK_URL = LOCALSTACK_ENDPOINT @ ''/_localstack/health''"

section \<open>setup-localstack.py\<close>

definition TIMEOUT :: nat where
  "TIMEOUT = 60"

definition check_docker :: "'w env \<Rightarrow> (unit, 'w) prog" where
  "check_docker env =
     seq (print_step ''Checking if Docker is running...'' emoji_glass)
       (try_except
          (seq (run_command env [''docker'', ''info''] True True)
               (print (emoji_check @ '' Docker is running'')))
          (\<lambda>e. case e of
             SystemExit _ \<Rightarrow> Some
               (seq (print (emoji_cross @ '' Docker is not running. Please start Docker and try again.''))
                    (sys_exit 1))
           | _ \<Rightarrow> None))"


text \<open>
  The loop of \<open>wait_for_localstack\<close>, from the value of \<open>counter\<close> on. The \<open>try\<close> block
  gives \<open>True\<close> when it returned from the function.
\<close>

function wait_loop :: "'w env \<Rightarrow> nat \<Rightarrow> (unit, 'w) prog" where
  "wait_loop env counter =
     (if counter < TIMEOUT then
        bnd (try_except
               (bnd (urlopen env HEALTH_CHECK_URL 2) (\<lambda>response.
                  if fst response = 200
                  then seq (print (emoji_check @ '' LocalStack is ready!'')) (ret True)
                  else ret False))
               (\<lambda>e. case e of
                  URLError _ \<Rightarrow> Some (ret False)
                | OSError _ \<Rightarrow> Some (ret False)
                | TimeoutError _ \<Rightarrow> Some (ret False)
                | _ \<Rightarrow> None))
          (\<lambda>returned.
             if returned then ret ()
             else seq (print (''   Waiting... ('' @ str_nat counter @ ''/'' @ str_nat TIMEOUT @ '')''))
                 (seq (time_sleep env 2)
                      (wait_loop env (counter + 2))))
      else seq (print (emoji_cross @ '' LocalStack failed to start within ''
                         @ str_nat TIMEOUT @ '' seconds''))
               (sys_exit 1))"
  by pat_completeness auto
termination
  by (relation "measure (\<lambda>(env, counter). TIMEOUT - counter)") auto

declare wait_loop.simps [simp del]

definition wait_for_localstack :: "'w env \<Rightarrow> (unit, 'w) prog" where
  "wait_for_localstack env =
     seq (print_step ''Waiting for LocalStack to be ready...'' emoji_hourglass)
         (wait_loop env 0)"


section \<open>deploy-lambda-localstack-zip.py\<close>

definition LAMBDA_NAME :: string where
  "LAMBDA_NAME = ''simple-lambda''"

definition LAMBDA_DIR :: "'w env \<Rightarrow> path" where
  "LAMBDA_DIR env = parent (parent (script_file env)) @ [''src'', ''dotnet'', ''SimpleLambda'']"

definition zip_check_prerequisites :: "'w env \<Rightarrow> (unit, 'w) prog" where
  "zip_check_prerequisites env =
     seq (print_step ''Checking prerequisites...'' emoji_glass)
    (seq (try_except
            (seq (run_command env [''dotnet'', ''--version''] True True) (ret ()))
            (\<lambda>e. case e of
               SystemExit _ \<Rightarrow> Some
                 (seq (print (emoji_cross @ '' .NET SDK is not installed or not in PATH''))
                      (sys_exit 1))
             | _ \<Rightarrow> None))
    (seq (try_except
            (seq (run_command env [''aws'', ''--version''] True True) (ret ()))
            (\<lambda>e. case e of
               SystemExit _ \<Rightarrow> Some
                 (seq (print (emoji_cross @ '' AWS CLI is not installed or not in PATH''))
                      (sys_exit 1))
             | _ \<Rightarrow> None))
    (bnd (try_except
            (bnd (urlopen env (LOCALSTACK_ENDPOINT @ ''/_localstack/health'') 2) (\<lambda>response.
               if fst response = 200
               then seq (print (emoji_check @ '' Prerequisites check passed'')) (ret True)
               else ret False))
            (\<lambda>e. case e of
               SystemExit _ \<Rightarrow> None
             | _ \<Rightarrow> Some (ret False)))
       (\<lambda>returned.
          if returned then ret ()
          else seq (print (emoji_cross @ '' LocalStack is not accessible''))
              (seq (print ''   Start it with: python scripts/setup-localstack.py'')
                   (sys_exit 1))))))"

text \<open>
  The \<open>with zipfile.ZipFile(zip_path, 'w', ...)\<close> block: the archive is created, then every
  path below the publish directory that is a file is written under its relative name.
\<close>

definition write_zip :: "path \<Rightarrow> path \<Rightarrow> (unit, 'w) prog" where
  "write_zip zip_path publish_dir = (\<lambda>s.
     let created = (zip_path, File) # unlink_fs (fs s) zip_path;
         entries = map (\<lambda>file. (file, relative_to file publish_dir))
                     (filter (is_file created) (rglob created publish_dir))
     in (Inr (), [ZipWrite zip_path entries],
         s\<lparr>fs := (zip_path, Archive entries) # unlink_fs (fs s) zip_path\<rparr>))"

text \<open>The block under the comment \<open>Clean previous builds\<close>.\<close>

definition clean_previous_builds :: "'w env \<Rightarrow> (unit, 'w) prog" where
  "clean_previous_builds env =
     seq (bnd (exists (LAMBDA_DIR env @ [''bin''])) (\<lambda>found.
            when_do found (rmtree (LAMBDA_DIR env @ [''bin'']))))
         (bnd (exists (LAMBDA_DIR env @ [''obj''])) (\<lambda>found.
            when_do found (rmtree (LAMBDA_DIR env @ [''obj'']))))"

definition build_and_package :: "'w env \<Rightarrow> (path, 'w) prog" where
  "build_and_package env =
     seq (print_step ''Building .NET Lambda...'' emoji_hammer)
    (bnd (exists (LAMBDA_DIR env)) (\<lambda>found.
     seq (when_do (\<not> found)
            (seq (print (emoji_cross @ '' Lambda directory not found: '' @ str_path (LAMBDA_DIR env)))
                 (sys_exit 1)))
    (bnd get_cwd (\<lambda>original_dir.
       try_finally
         (seq (chdir (LAMBDA_DIR env))
         (seq (clean_previous_builds env)
         (seq (print ''   Publishing Lambda function...'')
         (seq (run_command env [''dotnet'', ''publish'', ''-c'', ''Release'', ''-o'', ''publish''] True False)
         (seq (print_step ''Creating ZIP package...'' emoji_package)
         (let zip_path = LAMBDA_DIR env @ [''lambda.zip'']
          in seq (bnd (exists zip_path) (\<lambda>old. when_do old (unlink zip_path)))
            (seq (write_zip zip_path (LAMBDA_DIR env @ [''publish'']))
            (seq (print (emoji_check @ '' Package created: '' @ str_path zip_path))
                 (ret zip_path)))))))))
         (chdir original_dir)))))"

text \<open>\<open>with open(zip_path, 'rb') as f: f.read()\<close>.\<close>

definition read_binary :: "path \<Rightarrow> (unit, 'w) prog" where
  "read_binary p = (\<lambda>s.
     if is_file (fs s) p then (Inr (), [], s)
     else if path_exists (fs s) p then (Inl (OSError ''IsADirectoryError''), [], s)
     else (Inl FileNotFoundError, [], s))"

text \<open>
  The test on \<open>result.stderr\<close> of both deployment scripts; on \<open>None\<close> the \<open>in\<close> raises.
\<close>

definition conflict_signature :: "string option \<Rightarrow> (bool, 'w) prog" where
  "conflict_signature err =
     (case err of
        None \<Rightarrow> raise (OtherException ''TypeError'')
      | Some t \<Rightarrow> ret (contains ''ResourceConflictException'' t
                       \<or> contains ''already exists'' (lower t)))"

definition zip_create_cmd :: "path \<Rightarrow> string list" where
  "zip_create_cmd zip_path =
     [''aws'',
      ''--endpoint-url'', LOCALSTACK_ENDPOINT,
      ''lambda'', ''create-function'',
      ''--function-name'', LAMBDA_NAME,
      ''--runtime'', ''provided.al2'',
      ''--role'', ''arn:aws:iam::000000000000:role/lambda-role'',
      ''--handler'', ''SimpleLambda::SimpleLambda.Function::FunctionHandler'',
      ''--zip-file'', ''fileb://'' @ str_path zip_path,
      ''--timeout'', ''30'',
      ''--memory-size'', ''512'']"

definition zip_update_cmd :: "path \<Rightarrow> string list" where
  "zip_update_cmd zip_path =
     [''aws'',
      ''--endpoint-url'', LOCALSTACK_ENDPOINT,
      ''lambda'', ''update-function-code'',
      ''--function-name'', LAMBDA_NAME,
      ''--zip-file'', ''fileb://'' @ str_path zip_path]"

definition deploy_lambda :: "'w env \<Rightarrow> path \<Rightarrow> (unit, 'w) prog" where
  "deploy_lambda env zip_path =
     seq (print_step ''Deploying Lambda function...'' emoji_memo)
    (seq (read_binary zip_path)
    (bnd (run_command env (zip_create_cmd zip_path) False True) (\<lambda>result.
       if returncode result = 0 then print (emoji_check @ '' Lambda function created!'')
       else bnd (conflict_signature (stderr result)) (\<lambda>conflict.
         if conflict then
           seq (print (emoji_warning @ ''  Lambda already exists, updating code...''))
          (seq (run_command env (zip_update_cmd zip_path) True False)
               (print (emoji_check @ '' Lambda function updated!'')))
         else
           seq (print (emoji_cross @ '' Failed to create Lambda function: '' @ text_of (stderr result)))
               (sys_exit 1)))))"

section \<open>deploy-lambda-localstack.py\<close>

definition IMAGE_NAME :: string where
  "IMAGE_NAME = ''simple-lambda:latest''"

definition REGISTRY :: string where
  "REGISTRY = ''localhost:4510''"

definition image_check_prerequisites :: "'w env \<Rightarrow> (unit, 'w) prog" where
  "image_check_prerequisites env =
     seq (print_step ''Checking prerequisites...'' emoji_glass)
    (seq (try_except
            (seq (run_command env [''docker'', ''--version''] True True) (ret ()))
            (\<lambda>e. case e of
               SystemExit _ \<Rightarrow> Some
                 (seq (print (emoji_cross @ '' Docker is not installed or not in PATH''))
                      (sys_exit 1))
             | _ \<Rightarrow> None))
    (seq (try_except
            (seq (run_command env [''aws'', ''--version''] True True) (ret ()))
            (\<lambda>e. case e of
               SystemExit _ \<Rightarrow> Some
                 (seq (print (emoji_cross @ '' AWS CLI is not installed or not in PATH''))
                      (sys_exit 1))
             | _ \<Rightarrow> None))
    (bnd (run_command env
            [''docker'', ''ps'', ''--filter'', ''name=localstack'', ''--format'', ''{{.Names}}'']
            False True) (\<lambda>result.
     case stdout result of
       None \<Rightarrow> raise (OtherException ''AttributeError'')
     | Some out \<Rightarrow>
         seq (when_do (strip out = [])
                (seq (print (emoji_cross @ '' LocalStack container is not running''))
                (seq (print ''   Please start LocalStack first:'')
                (seq (print ''   python scripts/setup-localstack.py'')
                (seq (print ''   or'')
                (seq (print ''   docker-compose up -d'')
                     (sys_exit 1)))))))
             (print (emoji_check @ '' Prerequisites check passed''))))))"

definition image_uri :: string where
  "image_uri = REGISTRY @ ''/'' @ IMAGE_NAME"

definition image_create_cmd :: "string list" where
  "image_create_cmd =
     [''aws'',
      ''--endpoint-url'', LOCALSTACK_ENDPOINT,
      ''lambda'', ''create-function'',
      ''--function-name'', LAMBDA_NAME,
      ''--package-type'', ''Image'',
      ''--code'', ''ImageUri='' @ image_uri,
      ''--role'', ''arn:aws:iam::000000000000:role/lambda-role'',
      ''--timeout'', ''30'',
      ''--memory-size'', ''512'']"

definition image_update_cmd :: "string list" where
  "image_update_cmd =
     [''aws'',
      ''--endpoint-url'', LOCALSTACK_ENDPOINT,
      ''lambda'', ''update-function-code'',
      ''--function-name'', LAMBDA_NAME,
      ''--image-uri'', image_uri]"

definition create_or_update_lambda :: "'w env \<Rightarrow> (unit, 'w) prog" where
  "create_or_update_lambda env =
     seq (print_step ''Creating Lambda function in LocalStack...'' emoji_memo)
    (bnd (run_command env image_create_cmd False True) (\<lambda>result.
       if returncode result = 0 then print (emoji_check @ '' Lambda function created!'')
       else bnd (conflict_signature (stderr result)) (\<lambda>conflict.
         if conflict then
           seq (print (emoji_warning @ ''  Lambda already exists, updating instead... '' @ emoji_warning))
          (seq (run_command env image_update_cmd True False)
               (print (emoji_check @ '' Lambda function updated!'')))
         else
           seq (print (emoji_cross @ '' Failed to create Lambda function: '' @ text_of (stderr result)))
               (sys_exit 1))))"


section \<open>teardown-localstack.py\<close>

definition stop_localstack :: "'w env \<Rightarrow> (bool, 'w) prog" where
  "stop_localstack env =
     seq (print_step ''Stopping LocalStack...'' emoji_stop)
       (let script_dir = parent (script_file env);
            project_root = parent script_dir;
            docker_compose_file = project_root @ [''docker-compose.yml'']
        in bnd (exists docker_compose_file) (\<lambda>found.
           if \<not> found then
             seq (print (emoji_warning @ ''  docker-compose.yml not found at ''
                           @ str_path docker_compose_file))
                 (ret False)
           else
             bnd get_cwd (\<lambda>original_dir.
               try_finally
                 (seq (chdir project_root)
                 (bnd (teardown_run_command env [''docker-compose'', ''down''] False False) (\<lambda>result.
                    if (case result of None \<Rightarrow> False | Some r \<Rightarrow> returncode r = 0) then
                      seq (print (emoji_check @ '' LocalStack stopped and containers removed''))
                          (ret True)
                    else
                      seq (print (emoji_warning @ ''  LocalStack may not have been running''))
                          (ret False))))
                 (chdir original_dir))))"

definition remove_volumes_prompt :: string where
  "remove_volumes_prompt =
     ''   Remove LocalStack data? This will delete all persisted state. (y/N): ''"

definition remove_volumes :: "'w env \<Rightarrow> (unit, 'w) prog" where
  "remove_volumes env =
     seq (print_step ''Checking for LocalStack data...'' emoji_package)
       (let script_dir = parent (script_file env);
            project_root = parent script_dir;
            localstack_data = project_root @ [''localstack-data'']
        in bnd (exists localstack_data) (\<lambda>found.
           if found then
             seq (print (''   Found data directory: '' @ str_path localstack_data))
            (bnd (input env remove_volumes_prompt) (\<lambda>response.
               if lower response = ''y'' then
                 try_except
                   (seq (rmtree localstack_data)
                        (print (emoji_check @ '' LocalStack data removed'')))
                   (\<lambda>e. case e of
                      SystemExit _ \<Rightarrow> None
                    | _ \<Rightarrow> Some (print (emoji_cross @ '' Failed to remove data: '' @ exn_str env e)))
               else print ''   Skipping data removal''))
           else print ''   No LocalStack data directory found''))"

definition cleanup_containers_prompt :: string where
  "cleanup_containers_prompt = ''   Remove orphaned LocalStack containers? (y/N): ''"

definition cleanup_containers :: "'w env \<Rightarrow> (unit, 'w) prog" where
  "cleanup_containers env =
     seq (print_step ''Checking for orphaned containers...'' emoji_glass)
    (bnd (teardown_run_command env
            [''docker'', ''ps'', ''-a'', ''--filter'', ''name=localstack'', ''--format'', ''{{.Names}}'']
            False True) (\<lambda>result.
     case result of
       None \<Rightarrow> print ''   No orphaned containers found''
     | Some r \<Rightarrow>
         (case stdout r of
            None \<Rightarrow> raise (OtherException ''AttributeError'')
          | Some out \<Rightarrow>
              if strip out \<noteq> [] then
                (let containers = split_on newline (strip out)
                 in seq (print (''   Found containers: '' @ join '', '' containers))
                   (bnd (input env cleanup_containers_prompt) (\<lambda>response.
                      if lower response = ''y'' then
                        seq (for_each containers (\<lambda>container.
                               seq (teardown_run_command env [''docker'', ''rm'', ''-f'', container] False False)
                                   (ret ())))
                            (print (emoji_check @ '' Orphaned containers removed''))
                      else print ''   Skipping container removal'')))
              else print ''   No orphaned containers found'')))"

definition cleanup_images_prompt :: string where
  "cleanup_images_prompt = ''   Remove LocalStack Docker images? (y/N): ''"

text \<open>
  \<open>set(...)\<close> keeps one of each image id; the order in which Python walks the set is not
  fixed, and the model takes the order of \<open>remdups\<close>.
\<close>

definition cleanup_images :: "'w env \<Rightarrow> (unit, 'w) prog" where
  "cleanup_images env =
     seq (print_step ''Checking for LocalStack images...'' emoji_frame)
    (bnd (teardown_run_command env
            [''docker'', ''images'', ''localstack/localstack'', ''--format'', ''{{.ID}}'']
            False True) (\<lambda>result.
     case result of
       None \<Rightarrow> print ''   No LocalStack images found''
     | Some r \<Rightarrow>
         (case stdout r of
            None \<Rightarrow> raise (OtherException ''AttributeError'')
          | Some out \<Rightarrow>
              if strip out \<noteq> [] then
                (let image_ids = remdups (split_on newline (strip out))
                 in seq (print (''   Found '' @ str_nat (length image_ids) @ '' LocalStack image(s)''))
                   (bnd (input env cleanup_images_prompt) (\<lambda>response.
                      if lower response = ''y'' then
                        seq (for_each image_ids (\<lambda>image_id.
                               seq (teardown_run_command env [''docker'', ''rmi'', image_id] False False)
                                   (ret ())))
                            (print (emoji_check @ '' LocalStack images removed''))
                      else print ''   Skipping image removal'')))
              else print ''   No LocalStack images found'')))"

definition continue_prompt :: string where
  "continue_prompt = ''Continue with cleanup anyway? (y/N): ''"

definition images_prompt :: string where
  "images_prompt = ''Remove LocalStack Docker images? Usually not needed. (y/N): ''"

definition teardown_main :: "'w env \<Rightarrow> (unit, 'w) prog" where
  "teardown_main env =
     seq (print (emoji_broom @ '' Tearing down LocalStack development environment''))
    (seq (print (replicate 50 CHR ''=''))
    (bnd (stop_localstack env) (\<lambda>stopped.
     seq (when_do (\<not> stopped)
            (seq (print ([newline] @ emoji_warning @ ''  LocalStack may not have been running''))
            (bnd (input env continue_prompt) (\<lambda>response.
               when_do (lower response \<noteq> ''y'')
                 (seq (print ''Aborted.'') (sys_exit 0))))))
    (seq (print [])
    (seq (remove_volumes env)
    (seq (print [])
    (seq (cleanup_containers env)
    (seq (print [])
    (bnd (input env images_prompt) (\<lambda>response.
     seq (if lower response = ''y'' then cleanup_images env
          else print ''   Skipping image removal (recommended to keep for faster restarts)'')
    (seq (print [])
    (seq (print_step ''Teardown complete!'' emoji_check)
    (seq (print [])
    (seq (print ''To start LocalStack again, run:'')
         (print ''  python scripts/setup-localstack.py'')))))))))))))))"

section \<open>verify-localstack.py\<close>

text \<open>\<open>d.get(key, default)\<close>: only a dictionary has the method.\<close>

definition dict_get :: "json \<Rightarrow> string \<Rightarrow> json \<Rightarrow> (json, 'w) prog" where
  "dict_get d key dflt =
     (case d of
        JObject kvs \<Rightarrow> ret (case map_of kvs key of None \<Rightarrow> dflt | Some v \<Rightarrow> v)
      | _ \<Rightarrow> raise (OtherException ''AttributeError''))"

text \<open>\<open>d.items()\<close>.\<close>

definition dict_items :: "json \<Rightarrow> ((string \<times> json) list, 'w) prog" where
  "dict_items d =
     (case d of
        JObject kvs \<Rightarrow> ret kvs
      | _ \<Rightarrow> raise (OtherException ''AttributeError''))"

definition check_port_accessibility :: "'w env \<Rightarrow> (bool, 'w) prog" where
  "check_port_accessibility env =
     seq (print_step ''Checking if LocalStack port 4566 is accessible...'' emoji_plug)
       (try_except
          (bnd (urlopen env HEALTH_CHECK_URL 5) (\<lambda>response.
             if fst response = 200 then
               (case json_loads env (snd response) of
                  None \<Rightarrow> raise (OtherException ''ValueError'')
                | Some data \<Rightarrow>
                    seq (print (emoji_check @ '' LocalStack is accessible at http://localhost:4566''))
                   (bnd (dict_get data ''version'' (JString ''unknown'')) (\<lambda>version.
                    seq (print (''   Version: '' @ py_str env version))
                   (bnd (dict_get data ''edition'' (JString ''unknown'')) (\<lambda>edition.
                    seq (print (''   Edition: '' @ py_str env edition))
                   (bnd (dict_get data ''services'' (JObject [])) (\<lambda>services.
                    bnd (dict_items services) (\<lambda>items.
                    let available = map fst (filter (\<lambda>(svc, status). status = JString ''available'') items)
                    in seq (when_do (available \<noteq> [])
                              (seq (print (''   Available services: '' @ join '', '' (take 10 available)))
                                   (when_do (length available > 10)
                                      (print (''   ... and '' @ str_nat (length available - 10) @ '' more'')))))
                           (ret True)))))))))
             else
               seq (print (emoji_warning @ ''  LocalStack responded with status code: ''
                             @ str_nat (fst response)))
                   (ret False)))
          (\<lambda>e. case e of
             URLError reason \<Rightarrow> Some
               (seq (print (emoji_cross @ '' Cannot connect to LocalStack at '' @ LOCALSTACK_ENDPOINT))
               (seq (print (''   Error: '' @ reason))
                    (ret False)))
           | SystemExit _ \<Rightarrow> None
           | _ \<Rightarrow> Some
               (seq (print (emoji_cross @ '' Error checking LocalStack: '' @ exn_str env e))
                    (ret False))))"

text \<open>The value is \<open>True\<close>, \<open>False\<close> or \<open>None\<close>.\<close>

definition check_container_status :: "'w env \<Rightarrow> (bool option, 'w) prog" where
  "check_container_status env =
     seq (print_step ''Checking LocalStack container status...'' emoji_whale)
       (try_except
          (bnd (subprocess_run env
                  [''docker'', ''ps'', ''--filter'', ''name=localstack'', ''--format'',
                   ''{{.Names}}'' @ [tab] @ ''{{.Status}}'' @ [tab] @ ''{{.Ports}}'']
                  True True) (\<lambda>result.
           case stdout result of
             None \<Rightarrow> raise (OtherException ''AttributeError'')
           | Some out \<Rightarrow>
               if strip out \<noteq> [] then
                 seq (for_each (split_on newline (strip out)) (\<lambda>line.
                        let parts = split_on tab line
                        in when_do (length parts \<ge> 2)
                             (let name = parts ! 0;
                                  status = parts ! 1;
                                  ports = (if length parts > 2 then parts ! 2 else ''N/A'')
                              in seq (print (''   Container: '' @ name))
                                (seq (print (''   Status: '' @ status))
                                     (print (''   Ports: '' @ ports))))))
                     (ret (Some True))
               else
                 seq (print (emoji_cross @ '' LocalStack container is not running''))
                (seq (print ''   Start it with: python scripts/setup-localstack.py'')
                     (ret (Some False)))))
          (\<lambda>e. case e of
             FileNotFoundError \<Rightarrow> Some
               (seq (print (emoji_warning @ ''  Docker command not found - cannot check container status''))
                    (ret None))
           | CalledProcessError rc err \<Rightarrow> Some
               (seq (print (emoji_warning @ ''  Error checking container: '' @ exn_str env e))
                    (ret None))
           | _ \<Rightarrow> None))"

definition test_basic_operations :: "'w env \<Rightarrow> (unit, 'w) prog" where
  "test_basic_operations env =
     seq (print_step ''Testing basic LocalStack operations...'' emoji_tube)
    (seq (try_except
            (bnd (subprocess_run_timeout env
                    [''aws'', ''--endpoint-url'', LOCALSTACK_ENDPOINT, ''s3'', ''ls''] 5) (\<lambda>result.
               if returncode result = 0 then print (''   '' @ emoji_check @ '' S3 service is working'')
               else print (''   '' @ emoji_warning @ ''  S3 test returned: '' @ str_int (returncode result))))
            (\<lambda>e. case e of
               SystemExit _ \<Rightarrow> None
             | _ \<Rightarrow> Some (print (''   '' @ emoji_warning @ ''  S3 test failed: '' @ exn_str env e))))
         (try_except
            (bnd (subprocess_run_timeout env
                    [''aws'', ''--endpoint-url'', LOCALSTACK_ENDPOINT, ''lambda'', ''list-functions''] 5) (\<lambda>result.
               if returncode result = 0 then print (''   '' @ emoji_check @ '' Lambda service is working'')
               else print (''   '' @ emoji_warning @ ''  Lambda test returned: '' @ str_int (returncode result))))
            (\<lambda>e. case e of
               SystemExit _ \<Rightarrow> None
             | _ \<Rightarrow> Some (print (''   '' @ emoji_warning @ ''  Lambda test failed: '' @ exn_str env e)))))"

definition verify_main :: "'w env \<Rightarrow> (unit, 'w) prog" where
  "verify_main env =
     seq (print (emoji_glass @ '' Verifying LocalStack Accessibility''))
    (seq (print (replicate 50 CHR ''=''))
    (seq (print [])
    (bnd (check_container_status env) (\<lambda>container_running.
     seq (print [])
    (bnd (check_port_accessibility env) (\<lambda>port_accessible.
     seq (print [])
        (if port_accessible then
           seq (test_basic_operations env)
          (seq (print [])
          (seq (print (emoji_check @ '' LocalStack is fully operational!''))
          (seq (print (''   API Endpoint: '' @ LOCALSTACK_ENDPOINT))
          (seq (print [])
          (seq (print ''You can now use LocalStack with:'')
               (print (''   aws --endpoint-url='' @ LOCALSTACK_ENDPOINT @ '' <command>'')))))))
         else
           seq (if container_running = Some False then
                  seq (print (emoji_bulb @ '' Tip: Start LocalStack with:''))
                      (print ''   python scripts/setup-localstack.py'')
                else
                  seq (print (emoji_bulb @ '' Tip: Check LocalStack logs with:''))
                      (print ''   docker-compose logs localstack''))
               (sys_exit 1))))))))"

section \<open>Observing a run\<close>

text \<open>
  The vocabulary of the properties: what a run returned and which events it caused.
\<close>

text \<open>A run ends fatally when it ends by an exception that gives a non-zero status.\<close>

definition fatal :: "exn + 'a \<Rightarrow> bool" where
  "fatal r = (case r of Inl _ \<Rightarrow> exit_status r \<noteq> 0 | Inr _ \<Rightarrow> False)"

text \<open>The \<open>CompletedProcess\<close> of a child that exited.\<close>

definition result_of :: "bool \<Rightarrow> int \<Rightarrow> string \<Rightarrow> string \<Rightarrow> completed_process" where
  "result_of capture rc out err =
     \<lparr>returncode = rc, stdout = (if capture then Some out else None),
      stderr = (if capture then Some err else None)\<rparr>"

fun is_run :: "event \<Rightarrow> bool" where
  "is_run (Run _ _ _ _) = True"
| "is_run _ = False"

text \<open>The child processes a run started, in order.\<close>

definition runs :: "event list \<Rightarrow> event list" where
  "runs evs = filter is_run evs"

text \<open>How the GETs of a run ended, in order.\<close>

fun http_outcomes :: "event list \<Rightarrow> http_outcome list" where
  "http_outcomes [] = []"
| "http_outcomes (HttpGet _ _ out # es) = out # http_outcomes es"
| "http_outcomes (_ # es) = http_outcomes es"

fun is_sleep :: "event \<Rightarrow> bool" where
  "is_sleep (Sleep _) = True"
| "is_sleep _ = False"

fun ready :: "http_outcome \<Rightarrow> bool" where
  "ready (Response status _) = (status = 200)"
| "ready (Fails _) = False"

text \<open>The failures that are \<open>URLError\<close>, \<open>OSError\<close> or \<open>TimeoutError\<close>.\<close>

fun network_error :: "http_outcome \<Rightarrow> bool" where
  "network_error (Fails (UrlError _)) = True"
| "network_error (Fails (OsError _)) = True"
| "network_error (Fails (TimedOut _)) = True"
| "network_error _ = False"

text \<open>A check that came back without success: a network error or another status.\<close>

definition not_yet_ready :: "http_outcome \<Rightarrow> bool" where
  "not_yet_ready out =
     (network_error out \<or> (case out of Response status _ \<Rightarrow> status \<noteq> 200 | Fails _ \<Rightarrow> False))"

definition timeout_message :: string where
  "timeout_message = emoji_cross @ '' LocalStack failed to start within 60 seconds''"

text \<open>The checks the loop can still make when \<open>counter\<close> has this value.\<close>

definition attempts_left :: "nat \<Rightarrow> nat" where
  "attempts_left counter = (TIMEOUT + 1 - counter) div 2"

text \<open>
  What the poll loop may have done with \<open>n\<close> checks left: every check but the last came
  back without success; the last one decides how the loop ended.
\<close>

definition poll_verdict :: "nat \<Rightarrow> exn + unit \<Rightarrow> event list \<Rightarrow> bool" where
  "poll_verdict n r evs =
     (let outs = http_outcomes evs in
        list_all not_yet_ready (butlast outs) \<and> length outs \<le> n \<and>
        (if outs = [] then n = 0 \<and> r = Inl (SystemExit 1)
         else if ready (last outs) then r = Inr ()
         else if not_yet_ready (last outs) then length outs = n \<and> r = Inl (SystemExit 1)
         else (\<exists>m. last outs = Fails (OtherError m) \<and> r = Inl (OtherException m))) \<and>
        (r = Inl (SystemExit 1) \<longrightarrow> evs \<noteq> [] \<and> last evs = Print timeout_message))"

text \<open>
  The three ways the upsert can go after the create call exited with \<open>rc\<close> and the error
  text \<open>err\<close>; \<open>upd\<close> is how the update call ends when it is made.
\<close>

definition upsert_outcome ::
  "string list \<Rightarrow> string list \<Rightarrow> int \<Rightarrow> string \<Rightarrow> proc_outcome \<Rightarrow> exn + unit \<Rightarrow> event list \<Rightarrow> bool" where
  "upsert_outcome create update rc err upd r evs =
     (if rc = 0 then
        r = Inr () \<and> runs evs = [Run create False True None]
      else if contains ''ResourceConflictException'' err \<or> contains ''already exists'' (lower err) then
        runs evs = [Run create False True None, Run update True False None]
        \<and> Print (emoji_cross @ '' Failed to create Lambda function: '' @ err) \<notin> set evs
        \<and> r = (case upd of
                 Exited urc _ _ \<Rightarrow> if urc = 0 then Inr () else Inl (SystemExit 1)
               | NotFound \<Rightarrow> Inl (SystemExit 1))
      else
        r = Inl (SystemExit 1) \<and> runs evs = [Run create False True None]
        \<and> last evs = Print (emoji_cross @ '' Failed to create Lambda function: '' @ err))"

text \<open>A program that leaves the working directory as it found it, however it ends.\<close>

definition keeps_cwd :: "('a, 'w) prog \<Rightarrow> bool" where
  "keeps_cwd m = (\<forall>s. cwd (snd (snd (m s))) = cwd s)"

text \<open>Every event a program can cause satisfies \<open>P\<close>.\<close>

definition emits :: "(event \<Rightarrow> bool) \<Rightarrow> ('a, 'w) prog \<Rightarrow> bool" where
  "emits P m = (\<forall>s. list_all P (fst (snd (m s))))"

text \<open>A property that holds of everything printed and of every change of directory.\<close>

definition quiet :: "(event \<Rightarrow> bool) \<Rightarrow> bool" where
  "quiet P = ((\<forall>msg. P (Print msg)) \<and> (\<forall>p. P (Chdir p)))"

text \<open>
  In a list of events, no \<open>act\<close> event comes before the first \<open>ok\<close> event.
\<close>

fun gated :: "(event \<Rightarrow> bool) \<Rightarrow> (event \<Rightarrow> bool) \<Rightarrow> event list \<Rightarrow> bool" where
  "gated ok act [] = True"
| "gated ok act (e # es) = (\<not> act e \<and> (ok e \<or> gated ok act es))"

definition gates :: "(event \<Rightarrow> bool) \<Rightarrow> (event \<Rightarrow> bool) \<Rightarrow> ('a, 'w) prog \<Rightarrow> bool" where
  "gates ok act m = (\<forall>s. gated ok act (fst (snd (m s))))"

text \<open>The operator was asked this prompt and the answer, lowercased, is \<open>y\<close>.\<close>

fun confirmed :: "string \<Rightarrow> event \<Rightarrow> bool" where
  "confirmed prompt (Input p (Some a)) = (p = prompt \<and> lower a = ''y'')"
| "confirmed prompt _ = False"

fun asks :: "string \<Rightarrow> event \<Rightarrow> bool" where
  "asks prompt (Input p _) = (p = prompt)"
| "asks prompt _ = False"

fun is_rmtree :: "event \<Rightarrow> bool" where
  "is_rmtree (Rmtree _) = True"
| "is_rmtree _ = False"

text \<open>\<open>docker rm ...\<close> and \<open>docker rmi ...\<close>.\<close>

fun removes_container :: "event \<Rightarrow> bool" where
  "removes_container (Run (a # b # _) _ _ _) = (a = ''docker'' \<and> b = ''rm'')"
| "removes_container _ = False"

fun removes_image :: "event \<Rightarrow> bool" where
  "removes_image (Run (a # b # _) _ _ _) = (a = ''docker'' \<and> b = ''rmi'')"
| "removes_image _ = False"

definition destructive :: "event \<Rightarrow> bool" where
  "destructive e = (is_rmtree e \<or> removes_container e \<or> removes_image e)"

fun is_http_get :: "event \<Rightarrow> bool" where
  "is_http_get (HttpGet _ _ _) = True"
| "is_http_get _ = False"

text \<open>A program causes at most \<open>n\<close> events with the property \<open>Q\<close>.\<close>

definition at_most :: "nat \<Rightarrow> (event \<Rightarrow> bool) \<Rightarrow> ('a, 'w) prog \<Rightarrow> bool" where
  "at_most n Q m = (\<forall>s. length (filter Q (fst (snd (m s)))) \<le> n)"

text \<open>The container query of \<open>check_prerequisites\<close> in \<open>deploy-lambda-localstack.py\<close>.\<close>

definition docker_ps_cmd :: "string list" where
  "docker_ps_cmd =
     [''docker'', ''ps'', ''--filter'', ''name=localstack'', ''--format'', ''{{.Names}}'']"

text \<open>
  What \<open>check_port_accessibility\<close> needs of the body of a 200 response to get to its
  \<open>return True\<close>: it parses, the value is a dictionary, and \<open>services\<close>, when present,
  is a dictionary too.
\<close>

definition summarised :: "'w env \<Rightarrow> string \<Rightarrow> bool" where
  "summarised env body =
     (case json_loads env body of
        Some (JObject kvs) \<Rightarrow>
          (case map_of kvs ''services'' of
             None \<Rightarrow> True
           | Some (JObject _) \<Rightarrow> True
           | Some _ \<Rightarrow> False)
      | _ \<Rightarrow> False)"

definition healthy :: "'w env \<Rightarrow> http_outcome \<Rightarrow> bool" where
  "healthy env out =
     (case out of
        Response status body \<Rightarrow> status = 200 \<and> summarised env body
      | Fails _ \<Rightarrow> False)"

text \<open>The names \<open>build_and_package\<close> works with.\<close>

definition publish_cmd :: "string list" where
  "publish_cmd = [''dotnet'', ''publish'', ''-c'', ''Release'', ''-o'', ''publish'']"

definition bin_dir :: "'w env \<Rightarrow> path" where
  "bin_dir env = LAMBDA_DIR env @ [''bin'']"

definition obj_dir :: "'w env \<Rightarrow> path" where
  "obj_dir env = LAMBDA_DIR env @ [''obj'']"

definition publish_dir :: "'w env \<Rightarrow> path" where
  "publish_dir env = LAMBDA_DIR env @ [''publish'']"

definition zip_path :: "'w env \<Rightarrow> path" where
  "zip_path env = LAMBDA_DIR env @ [''lambda.zip'']"

text \<open>The file system after the block that cleans previous builds.\<close>

definition cleaned :: "'w env \<Rightarrow> filesys \<Rightarrow> filesys" where
  "cleaned env f =
     (let f1 = (if path_exists f (bin_dir env) then rmtree_fs f (bin_dir env) else f)
      in if path_exists f1 (obj_dir env) then rmtree_fs f1 (obj_dir env) else f1)"

text \<open>The entries the archive gets from a file system.\<close>

definition archive_entries :: "'w env \<Rightarrow> filesys \<Rightarrow> (path \<times> path) list" where
  "archive_entries env f =
     map (\<lambda>file. (file, relative_to file (publish_dir env)))
       (filter (is_file f) (rglob f (publish_dir env)))"

section \<open>Concrete runs\<close>

text \<open>
  An environment in which every command exits with 0 and prints nothing, the health
  endpoint answers 200 with an empty object and the operator answers no; the examples
  change one answer at a time. The state of the outside is a counter.
\<close>

definition demo_env :: "nat env" where
  "demo_env =
     \<lparr>script_file = [''repo'', ''scripts'', ''script.py''],
      proc = (\<lambda>cmd d f w. (Exited 0 [] [], f, w)),
      proc_timed = (\<lambda>cmd t d f w. (Completed (Exited 0 [] []), f, w)),
      http = (\<lambda>url t w. (Response 200 ''{}'', w)),
      stdin = (\<lambda>prompt w. (Some ''n'', w)),
      sleep = (\<lambda>n w. w),
      json_loads = (\<lambda>body. Some (JObject [])),
      py_str = (\<lambda>j. ''unknown''),
      exn_str = (\<lambda>e. ''error'')\<rparr>"

definition demo_state :: "nat state" where
  "demo_state =
     \<lparr>cwd = [''home'', ''dev''],
      fs = [([''repo''], Dir),
            ([''repo'', ''docker-compose.yml''], File),
            ([''repo'', ''src'', ''dotnet'', ''SimpleLambda''], Dir)],
      world = 0\<rparr>"

text \<open>Every command exits with 1 and the error text \<open>boom\<close>.\<close>

definition failing_env :: "nat env" where
  "failing_env = demo_env\<lparr>proc := (\<lambda>cmd d f w. (Exited 1 [] ''boom'', f, w))\<rparr>"

text \<open>The create call meets a function that is already there; the update goes through.\<close>

definition conflict_env :: "nat env" where
  "conflict_env = demo_env
     \<lparr>proc := (\<lambda>cmd d f w.
        if w = 0 then (Exited 254 [] ''An error occurred: Function Already Exists: simple-lambda'', f, 1)
        else (Exited 0 [] [], f, Suc w))\<rparr>"

text \<open>The health endpoint refuses every connection.\<close>

definition never_ready_env :: "nat env" where
  "never_ready_env = demo_env\<lparr>http := (\<lambda>url t w. (Fails (UrlError ''Connection refused''), w))\<rparr>"

text \<open>
  The health endpoint answers 204, then refuses a connection, and then answers 200.
\<close>

definition third_try_env :: "nat env" where
  "third_try_env = demo_env
     \<lparr>http := (\<lambda>url t w.
        (if w = 0 then Response 204 []
         else if w = 1 then Fails (UrlError ''Connection refused'')
         else Response 200 ''{}'', Suc w))\<rparr>"

text \<open>
  The operator answers \<open>Y\<close> to every prompt; \<open>docker images\<close> lists one image, every
  other command prints one container name; the data directory exists.
\<close>

definition eager_env :: "nat env" where
  "eager_env = demo_env
     \<lparr>proc := (\<lambda>cmd d f w.
        (Exited 0 (if take 2 cmd = [''docker'', ''images''] then ''0a1b2c3d4e5f'' @ [newline]
                   else ''localstack-main'' @ [newline]) [], f, w)),
      stdin := (\<lambda>prompt w. (Some ''Y'', w))\<rparr>"

definition eager_state :: "nat state" where
  "eager_state = demo_state\<lparr>fs := ([''repo'', ''localstack-data''], Dir) # fs demo_state\<rparr>"

definition eager_events :: "event list" where
  "eager_events = fst (snd (teardown_main eager_env eager_state))"

text \<open>A container is listed, but the health endpoint refuses every connection.\<close>

definition unreachable_env :: "nat env" where
  "unreachable_env =
     eager_env\<lparr>http := (\<lambda>url t w. (Fails (UrlError ''Connection refused''), w))\<rparr>"

text \<open>Something answers 200 on the health path, but not with JSON.\<close>

definition garbled_env :: "nat env" where
  "garbled_env = demo_env
     \<lparr>http := (\<lambda>url t w. (Response 200 ''<html>It works</html>'', w)),
      json_loads := (\<lambda>body. None)\<rparr>"

text \<open>
  A build tool that leaves \<open>bin\<close>, \<open>obj\<close> and \<open>publish\<close> behind and publishes one file:
  \<open>a.dll\<close> the first time it runs, \<open>b.dll\<close> every time after. \<open>put\<close> writes a path.
\<close>

definition put :: "filesys \<Rightarrow> path \<Rightarrow> node \<Rightarrow> filesys" where
  "put f p n = (p, n) # unlink_fs f p"

definition build_env :: "nat env" where
  "build_env = demo_env
     \<lparr>proc := (\<lambda>cmd d f w.
        (Exited 0 [] [],
         put (put (put (put f (d @ [''bin'']) Dir) (d @ [''obj'']) Dir) (d @ [''publish'']) Dir)
           (d @ [''publish'', if w = 0 then ''a.dll'' else ''b.dll'']) File,
         Suc w))\<rparr>"

definition first_build :: "nat state" where
  "first_build = snd (snd (build_and_package build_env demo_state))"

definition second_build :: "nat state" where
  "second_build = snd (snd (build_and_package build_env first_build))"



section \<open>Running programs\<close>

lemmas prog_defs = ret_def raise_def bnd_def seq_def try_except_def try_finally_def sys_exit_def
  print_def when_do_def get_cwd_def chdir_def exists_def rmtree_def unlink_def time_sleep_def
  input_def urlopen_def print_step_def

lemmas demo_defs = demo_env_def demo_state_def failing_env_def conflict_env_def
  never_ready_env_def third_try_env_def eager_env_def eager_state_def unreachable_env_def
  garbled_env_def build_env_def

lemma contains_sublist: "contains needle haystack = sublist needle haystack"
  by (induction haystack) (auto simp: sublist_Cons_right)

section \<open>CommandRunner: what a failed command does\<close>

lemma run_command_exited:
  assumes "cmd \<noteq> []" "proc env cmd (cwd s) (fs s) (world s) = (Exited rc out err, f, w)"
  shows "fst (run_command env cmd check cap s) =
           (if check \<and> rc \<noteq> 0 then Inl (SystemExit 1) else Inr (result_of cap rc out err))"
  using assms
  by (simp add: run_command_def subprocess_run_def result_of_def prog_defs Let_def)

lemma teardown_run_command_exited:
  assumes "cmd \<noteq> []" "proc env cmd (cwd s) (fs s) (world s) = (Exited rc out err, f, w)"
  shows "fst (teardown_run_command env cmd check cap s) =
           (if check \<and> rc \<noteq> 0 then Inr None else Inr (Some (result_of cap rc out err)))"
  using assms
  by (simp add: teardown_run_command_def subprocess_run_def result_of_def prog_defs Let_def)

lemma teardown_run_command_warns:
  assumes "cmd \<noteq> []" "proc env cmd (cwd s) (fs s) (world s) = (Exited rc out err, f, w)"
    and "rc \<noteq> 0"
  shows "Print (emoji_warning @ ''  Warning: Command failed: '' @ join '' '' cmd)
           \<in> set (fst (snd (teardown_run_command env cmd True cap s)))"
  using assms
  by (simp add: teardown_run_command_def subprocess_run_def prog_defs Let_def)

text \<open>
  C2, as the code has it. When the executable is found and the process exits with \<open>rc\<close>:
  \<open>run_command\<close> of the setup and deployment scripts with \<open>check = True\<close> ends the run
  with status 1 exactly when \<open>rc\<close> is not 0, and returns the result otherwise; with
  \<open>check = False\<close> it returns the result whatever \<open>rc\<close> is. \<open>run_command\<close> of the
  teardown script never ends the run on a failed process: with \<open>check = True\<close> and a
  non-zero \<open>rc\<close> it prints a warning and returns \<open>None\<close>, and in every other case it
  returns the result.
\<close>

theorem command_runner:
  assumes "cmd \<noteq> []" and "proc env cmd (cwd s) (fs s) (world s) = (Exited rc out err, f, w)"
  shows "(fatal (fst (run_command env cmd True cap s)) \<longleftrightarrow> rc \<noteq> 0)
       \<and> (rc \<noteq> 0 \<longrightarrow> fst (run_command env cmd True cap s) = Inl (SystemExit 1))
       \<and> (rc = 0 \<longrightarrow> fst (run_command env cmd True cap s) = Inr (result_of cap rc out err))
       \<and> fst (run_command env cmd False cap s) = Inr (result_of cap rc out err)
       \<and> \<not> fatal (fst (teardown_run_command env cmd True cap s))
       \<and> (rc \<noteq> 0 \<longrightarrow> fst (teardown_run_command env cmd True cap s) = Inr None)
       \<and> (rc = 0 \<longrightarrow>
            fst (teardown_run_command env cmd True cap s) = Inr (Some (result_of cap rc out err)))
       \<and> fst (teardown_run_command env cmd False cap s) = Inr (Some (result_of cap rc out err))
       \<and> (rc \<noteq> 0 \<longrightarrow>
            Print (emoji_warning @ ''  Warning: Command failed: '' @ join '' '' cmd)
              \<in> set (fst (snd (teardown_run_command env cmd True cap s))))"
  using run_command_exited [OF assms] teardown_run_command_exited [OF assms]
    teardown_run_command_warns [OF assms]
  by (simp add: fatal_def exit_status_def)

theorem command_runner_witness:
  "fatal (fst (run_command failing_env [''docker'', ''info''] True True demo_state))
   \<and> fst (run_command failing_env [''docker'', ''info''] True True demo_state) = Inl (SystemExit 1)
   \<and> fst (run_command failing_env [''docker'', ''info''] False True demo_state)
       = Inr (result_of True 1 [] ''boom'')
   \<and> fst (teardown_run_command failing_env [''docker'', ''info''] True True demo_state) = Inr None
   \<and> fst (teardown_run_command failing_env [''docker'', ''info''] False True demo_state)
       = Inr (Some (result_of True 1 [] ''boom''))"
proof -
  have located: "[''docker'', ''info''] \<noteq> []"
    by simp
  have exited:
    "proc failing_env [''docker'', ''info''] (cwd demo_state) (fs demo_state) (world demo_state)
       = (Exited 1 [] ''boom'', fs demo_state, 0)"
    by (simp add: demo_defs)
  show ?thesis
    using command_runner [OF located exited, of True] by (simp add: fatal_def exit_status_def)
qed

text \<open>
  C2 as stated fails on the teardown script: its \<open>run_command\<close> with \<open>check = True\<close> meets
  a process that exits with 1 and does not end the run.
\<close>

theorem command_runner_counterexample:
  "fst (proc failing_env [''docker'', ''info''] (cwd demo_state) (fs demo_state) (world demo_state))
     = Exited 1 [] ''boom''
   \<and> \<not> fatal (fst (teardown_run_command failing_env [''docker'', ''info''] True True demo_state))"
  by (simp add: teardown_run_command_def subprocess_run_def prog_defs demo_defs truthy_def text_of_def
      fatal_def)

section \<open>DeploymentUpserter\<close>

lemma create_cmd_nonempty:
  "image_create_cmd \<noteq> []" "image_update_cmd \<noteq> []"
  "zip_create_cmd z \<noteq> []" "zip_update_cmd z \<noteq> []"
  by (simp_all add: image_create_cmd_def image_update_cmd_def zip_create_cmd_def zip_update_cmd_def)

lemmas emoji_defs = emoji_rocket_def emoji_cross_def emoji_check_def emoji_glass_def
  emoji_package_def emoji_hourglass_def emoji_hammer_def emoji_memo_def emoji_warning_def
  emoji_broom_def emoji_stop_def emoji_frame_def emoji_plug_def emoji_whale_def emoji_tube_def
  emoji_bulb_def

lemma create_or_update_lambda_cases:
  assumes "proc env image_create_cmd (cwd s) (fs s) (world s) = (Exited rc out err, f, w)"
  shows "upsert_outcome image_create_cmd image_update_cmd rc err
           (fst (proc env image_update_cmd (cwd s) f w))
           (fst (create_or_update_lambda env s)) (fst (snd (create_or_update_lambda env s)))"
  using assms
  by (auto simp: create_or_update_lambda_def run_command_def subprocess_run_def
      conflict_signature_def upsert_outcome_def runs_def prog_defs Let_def create_cmd_nonempty
      truthy_def text_of_def emoji_defs
      split: prod.splits proc_outcome.splits sum.splits)

lemma deploy_lambda_cases:
  assumes "is_file (fs s) z"
    and "proc env (zip_create_cmd z) (cwd s) (fs s) (world s) = (Exited rc out err, f, w)"
  shows "upsert_outcome (zip_create_cmd z) (zip_update_cmd z) rc err
           (fst (proc env (zip_update_cmd z) (cwd s) f w))
           (fst (deploy_lambda env z s)) (fst (snd (deploy_lambda env z s)))"
  using assms
  by (auto simp: deploy_lambda_def read_binary_def run_command_def subprocess_run_def
      conflict_signature_def upsert_outcome_def runs_def prog_defs Let_def create_cmd_nonempty
      truthy_def text_of_def emoji_defs
      split: prod.splits proc_outcome.splits sum.splits)

text \<open>
  C1. In both deployment scripts, once the create call has exited with \<open>rc\<close> and the error
  text \<open>err\<close>: with \<open>rc = 0\<close> the function returns and the create call is the only process
  started; otherwise, if \<open>err\<close> contains \<open>ResourceConflictException\<close> or its lower-case form
  contains \<open>already exists\<close>, exactly one more process is started, the update call, with
  \<open>check = True\<close>, and the failure message is not printed; otherwise the run ends with status
  1, no update call is made, and the last line printed carries \<open>err\<close>.
\<close>

theorem upsert_protocol:
  "(proc env image_create_cmd (cwd s) (fs s) (world s) = (Exited rc out err, f, w) \<longrightarrow>
      upsert_outcome image_create_cmd image_update_cmd rc err
        (fst (proc env image_update_cmd (cwd s) f w))
        (fst (create_or_update_lambda env s)) (fst (snd (create_or_update_lambda env s))))
   \<and> (is_file (fs s) z
        \<and> proc env (zip_create_cmd z) (cwd s) (fs s) (world s) = (Exited rc out err, f, w) \<longrightarrow>
      upsert_outcome (zip_create_cmd z) (zip_update_cmd z) rc err
        (fst (proc env (zip_update_cmd z) (cwd s) f w))
        (fst (deploy_lambda env z s)) (fst (snd (deploy_lambda env z s))))"
proof (intro conjI impI)
  assume "proc env image_create_cmd (cwd s) (fs s) (world s) = (Exited rc out err, f, w)"
  then show "upsert_outcome image_create_cmd image_update_cmd rc err
        (fst (proc env image_update_cmd (cwd s) f w))
        (fst (create_or_update_lambda env s)) (fst (snd (create_or_update_lambda env s)))"
    by (rule create_or_update_lambda_cases)
next
  assume "is_file (fs s) z
        \<and> proc env (zip_create_cmd z) (cwd s) (fs s) (world s) = (Exited rc out err, f, w)"
  then show "upsert_outcome (zip_create_cmd z) (zip_update_cmd z) rc err
        (fst (proc env (zip_update_cmd z) (cwd s) f w))
        (fst (deploy_lambda env z s)) (fst (snd (deploy_lambda env z s)))"
    by (simp add: deploy_lambda_cases)
qed

lemma conflict_text_matches:
  "contains ''already exists'' (lower ''An error occurred: Function Already Exists: simple-lambda'')"
  by (simp add: lower_def lower_char_def)

theorem upsert_protocol_witness:
  "fst (create_or_update_lambda conflict_env demo_state) = Inr ()
   \<and> runs (fst (snd (create_or_update_lambda conflict_env demo_state)))
       = [Run image_create_cmd False True None, Run image_update_cmd True False None]
   \<and> fst (deploy_lambda conflict_env [''repo'', ''docker-compose.yml''] demo_state) = Inr ()
   \<and> runs (fst (snd (deploy_lambda conflict_env [''repo'', ''docker-compose.yml''] demo_state)))
       = [Run (zip_create_cmd [''repo'', ''docker-compose.yml'']) False True None,
          Run (zip_update_cmd [''repo'', ''docker-compose.yml'']) True False None]"
proof -
  let ?err = "''An error occurred: Function Already Exists: simple-lambda''"
  have image:
    "proc conflict_env image_create_cmd (cwd demo_state) (fs demo_state) (world demo_state)
       = (Exited 254 [] ?err, fs demo_state, 1)"
    by (simp add: demo_defs)
  have zip:
    "is_file (fs demo_state) [''repo'', ''docker-compose.yml'']
     \<and> proc conflict_env (zip_create_cmd [''repo'', ''docker-compose.yml''])
           (cwd demo_state) (fs demo_state) (world demo_state)
         = (Exited 254 [] ?err, fs demo_state, 1)"
    by (simp add: demo_defs is_file_def)
  have update:
    "fst (proc conflict_env cmd (cwd demo_state) (fs demo_state) (Suc 0)) = Exited 0 [] []" for cmd
    by (simp add: demo_defs)
  show ?thesis
    using upsert_protocol [of conflict_env demo_state 254 "[]" ?err "fs demo_state" 1
        "[''repo'', ''docker-compose.yml'']"] image zip
    by (simp add: upsert_outcome_def conflict_text_matches update)
qed


section \<open>ReadinessPoller\<close>

lemma str_nat_TIMEOUT: "str_nat TIMEOUT = ''60''"
  by (simp add: TIMEOUT_def str_nat.simps digit_char_def)

lemma wait_loop_done:
  "\<not> counter < TIMEOUT \<Longrightarrow>
   wait_loop env counter s = (Inl (SystemExit 1), [Print timeout_message], s)"
  by (subst wait_loop.simps) (simp add: prog_defs str_nat_TIMEOUT timeout_message_def)

lemma wait_loop_ready:
  assumes "counter < TIMEOUT" "http env HEALTH_CHECK_URL 2 (world s) = (out, w)" "ready out"
  shows "wait_loop env counter s =
           (Inr (), [HttpGet HEALTH_CHECK_URL 2 out, Print (emoji_check @ '' LocalStack is ready!'')],
            s\<lparr>world := w\<rparr>)"
  using assms
  by (subst wait_loop.simps) (cases out; simp add: prog_defs)

lemma wait_loop_again:
  assumes "counter < TIMEOUT" "http env HEALTH_CHECK_URL 2 (world s) = (out, w)" "not_yet_ready out"
  shows "wait_loop env counter s =
           (case wait_loop env (counter + 2) (s\<lparr>world := sleep env 2 w\<rparr>) of
              (r, evs, s') \<Rightarrow>
                (r, HttpGet HEALTH_CHECK_URL 2 out
                    # Print (''   Waiting... ('' @ str_nat counter @ ''/60)'')
                    # Sleep 2 # evs, s'))"
proof (cases out)
  case (Response status body)
  with assms show ?thesis
    by (subst wait_loop.simps)
       (simp add: prog_defs not_yet_ready_def str_nat_TIMEOUT split: prod.splits)
next
  case (Fails e)
  with assms show ?thesis
    by (subst wait_loop.simps)
       (cases e; simp add: prog_defs not_yet_ready_def str_nat_TIMEOUT exn_of_http_error_def
          split: prod.splits)
qed

lemma wait_loop_abort:
  assumes "counter < TIMEOUT"
    and "http env HEALTH_CHECK_URL 2 (world s) = (Fails (OtherError m), w)"
  shows "wait_loop env counter s =
           (Inl (OtherException m), [HttpGet HEALTH_CHECK_URL 2 (Fails (OtherError m))],
            s\<lparr>world := w\<rparr>)"
  using assms
  by (subst wait_loop.simps) (simp add: prog_defs exn_of_http_error_def)

lemma outcome_cases:
  obtains "ready out" | "not_yet_ready out" | m where "out = Fails (OtherError m)"
proof (cases out)
  case (Response status body)
  then show ?thesis using that by (cases "status = 200") (auto simp: not_yet_ready_def)
next
  case (Fails e)
  then show ?thesis using that by (cases e) (auto simp: not_yet_ready_def)
qed

lemma ready_not_yet: "ready out \<Longrightarrow> \<not> not_yet_ready out"
  by (cases out rule: ready.cases) (auto simp: not_yet_ready_def)

lemma network_error_not_yet: "network_error out \<Longrightarrow> not_yet_ready out"
  by (simp add: not_yet_ready_def)

lemma attempts_left_step:
  "counter < TIMEOUT \<Longrightarrow> attempts_left counter = Suc (attempts_left (counter + 2))"
  by (simp add: attempts_left_def TIMEOUT_def)

lemma attempts_left_done: "\<not> counter < TIMEOUT \<Longrightarrow> attempts_left counter = 0"
  by (simp add: attempts_left_def TIMEOUT_def)

lemma attempts_left_0: "attempts_left 0 = 30" "TIMEOUT div 2 = 30"
  by (simp_all add: attempts_left_def TIMEOUT_def)

lemma wait_loop_verdict:
  "poll_verdict (attempts_left counter)
     (fst (wait_loop env counter s)) (fst (snd (wait_loop env counter s)))"
proof (induction env counter arbitrary: s rule: wait_loop.induct)
  case (1 env counter)
  show ?case
  proof (cases "counter < TIMEOUT")
    case False
    then show ?thesis
      by (simp add: wait_loop_done attempts_left_done poll_verdict_def)
  next
    case True
    obtain out w where h: "http env HEALTH_CHECK_URL 2 (world s) = (out, w)"
      by (cases "http env HEALTH_CHECK_URL 2 (world s)")
    show ?thesis
    proof (cases out rule: outcome_cases)
      case 1
      then show ?thesis
        using True h by (simp add: wait_loop_ready poll_verdict_def attempts_left_step)
    next
      case 2
      let ?s = "s\<lparr>world := sleep env 2 w\<rparr>"
      obtain r evs s' where w: "wait_loop env (counter + 2) ?s = (r, evs, s')"
        by (cases "wait_loop env (counter + 2) ?s")
      have ih: "poll_verdict (attempts_left (counter + 2)) r evs"
        using "1.IH" [OF True, of False ?s] w by simp
      show ?thesis
        using True h 2 w ih
        by (auto simp: wait_loop_again poll_verdict_def attempts_left_step Let_def ready_not_yet
            split: if_splits)
    next
      case (3 m)
      then show ?thesis
        using True h
        by (simp add: wait_loop_abort poll_verdict_def attempts_left_step not_yet_ready_def)
    qed
  qed
qed

lemma wait_loop_never_ready:
  assumes "\<And>w. not_yet_ready (fst (http env HEALTH_CHECK_URL 2 w))"
  shows "fst (wait_loop env counter s) = Inl (SystemExit 1)
       \<and> length (http_outcomes (fst (snd (wait_loop env counter s)))) = attempts_left counter
       \<and> fst (snd (wait_loop env counter s)) \<noteq> []
       \<and> last (fst (snd (wait_loop env counter s))) = Print timeout_message"
  using assms
proof (induction env counter arbitrary: s rule: wait_loop.induct)
  case (1 env counter)
  show ?case
  proof (cases "counter < TIMEOUT")
    case False
    then show ?thesis
      by (simp add: wait_loop_done attempts_left_done)
  next
    case True
    obtain out w where h: "http env HEALTH_CHECK_URL 2 (world s) = (out, w)"
      by (cases "http env HEALTH_CHECK_URL 2 (world s)")
    have nr: "not_yet_ready out"
      using "1.prems" [of "world s"] h by simp
    have rest: "not_yet_ready (fst (http env HEALTH_CHECK_URL 2 w'))" for w'
      by (rule "1.prems")
    let ?s = "s\<lparr>world := sleep env 2 w\<rparr>"
    obtain r evs s' where w: "wait_loop env (counter + 2) ?s = (r, evs, s')"
      by (cases "wait_loop env (counter + 2) ?s")
    have ih: "r = Inl (SystemExit 1) \<and> length (http_outcomes evs) = attempts_left (counter + 2)
        \<and> evs \<noteq> [] \<and> last evs = Print timeout_message"
      using "1.IH" [OF True, of False ?s] rest w by simp
    show ?thesis
      using True h nr w ih by (simp add: wait_loop_again attempts_left_step)
  qed
qed


lemma wait_loop_sleeps:
  assumes "\<And>w. not_yet_ready (fst (http env HEALTH_CHECK_URL 2 w))"
  shows "length (filter is_sleep (fst (snd (wait_loop env counter s))))
           = length (http_outcomes (fst (snd (wait_loop env counter s))))"
  using assms
proof (induction env counter arbitrary: s rule: wait_loop.induct)
  case (1 env counter)
  show ?case
  proof (cases "counter < TIMEOUT")
    case False
    then show ?thesis
      by (simp add: wait_loop_done)
  next
    case True
    obtain out w where h: "http env HEALTH_CHECK_URL 2 (world s) = (out, w)"
      by (cases "http env HEALTH_CHECK_URL 2 (world s)")
    have nr: "not_yet_ready out"
      using "1.prems" [of "world s"] h by simp
    have rest: "not_yet_ready (fst (http env HEALTH_CHECK_URL 2 w'))" for w'
      by (rule "1.prems")
    let ?s = "s\<lparr>world := sleep env 2 w\<rparr>"
    obtain r evs s' where w: "wait_loop env (counter + 2) ?s = (r, evs, s')"
      by (cases "wait_loop env (counter + 2) ?s")
    have ih: "length (filter is_sleep evs) = length (http_outcomes evs)"
      using "1.IH" [OF True, of False ?s] rest w by simp
    show ?thesis
      using True h nr w ih by (simp add: wait_loop_again)
  qed
qed

text \<open>
  C3. If every health check comes back without success (a network error or a status other
  than 200), \<open>wait_for_localstack\<close> ends the run with status 1, the last line it prints is
  the message naming 60 seconds, and it has made exactly \<open>TIMEOUT div 2 = 30\<close> checks,
  with a sleep of 2 seconds after each.
\<close>

theorem readiness_timeout:
  assumes "\<And>w. not_yet_ready (fst (http env HEALTH_CHECK_URL 2 w))"
  shows "fst (wait_for_localstack env s) = Inl (SystemExit 1)
       \<and> exit_status (fst (wait_for_localstack env s)) = 1
       \<and> last (fst (snd (wait_for_localstack env s)))
           = Print (emoji_cross @ '' LocalStack failed to start within 60 seconds'')
       \<and> length (http_outcomes (fst (snd (wait_for_localstack env s)))) = TIMEOUT div 2
       \<and> length (http_outcomes (fst (snd (wait_for_localstack env s)))) = 30
       \<and> length (filter is_sleep (fst (snd (wait_for_localstack env s)))) = 30"
proof -
  obtain r evs s' where w: "wait_loop env 0 s = (r, evs, s')"
    by (cases "wait_loop env 0 s")
  have run: "wait_for_localstack env s
      = (r, Print (emoji_hourglass @ '' Waiting for LocalStack to be ready...'') # evs, s')"
    using w by (simp add: wait_for_localstack_def prog_defs)
  have "r = Inl (SystemExit 1) \<and> length (http_outcomes evs) = 30 \<and> evs \<noteq> []
      \<and> last evs = Print timeout_message"
    using wait_loop_never_ready [OF assms, of 0 s] w by (simp add: attempts_left_0)
  moreover have "length (filter is_sleep evs) = length (http_outcomes evs)"
    using wait_loop_sleeps [OF assms, of 0 s] w by simp
  ultimately show ?thesis
    using run by (simp add: exit_status_def timeout_message_def attempts_left_0)
qed

theorem readiness_timeout_witness:
  "(\<forall>w. not_yet_ready (fst (http never_ready_env HEALTH_CHECK_URL 2 w)))
   \<and> fst (wait_for_localstack never_ready_env demo_state) = Inl (SystemExit 1)
   \<and> length (http_outcomes (fst (snd (wait_for_localstack never_ready_env demo_state)))) = 30"
proof -
  have never: "not_yet_ready (fst (http never_ready_env HEALTH_CHECK_URL 2 w))" for w
    by (simp add: demo_defs not_yet_ready_def)
  show ?thesis
    using readiness_timeout [of never_ready_env demo_state, OF never] never by simp
qed

lemma wait_for_localstack_outcomes:
  "fst (wait_for_localstack env s) = fst (wait_loop env 0 s)"
  "http_outcomes (fst (snd (wait_for_localstack env s)))
     = http_outcomes (fst (snd (wait_loop env 0 s)))"
  by (simp_all add: wait_for_localstack_def prog_defs split: prod.splits)

lemma butlast_all_nth:
  assumes "list_all P (butlast xs)" "i < length xs" "\<not> P (xs ! i)"
  shows "Suc i = length xs"
proof (rule ccontr)
  assume "Suc i \<noteq> length xs"
  with assms(2) have "i < length (butlast xs)"
    by simp
  with assms(1) have "P (butlast xs ! i)"
    by (simp add: list_all_length)
  with \<open>i < length (butlast xs)\<close> assms(3) show False
    by (simp add: nth_butlast)
qed

lemma last_is_nth: "Suc i = length xs \<Longrightarrow> last xs = xs ! i \<and> xs \<noteq> []"
  by (cases xs rule: rev_cases) (auto simp: nth_append)

text \<open>
  C4. Whatever the health checks answer, in the list of their outcomes during
  \<open>wait_for_localstack\<close>: at least one check is made and at most thirty; a check that
  succeeds is the last check made, and the function then returns normally; the function
  returns normally only after a check that succeeded; a check that comes back without
  success, be it another status than 200 or a network error (\<open>URLError\<close>, \<open>OSError\<close>,
  \<open>TimeoutError\<close>), is either followed by another check or was the thirtieth, after which
  the run ends on the timeout. So the loop goes on until the first success, and neither a
  status other than 200 nor a network error ends it.
\<close>

theorem readiness_first_success:
  "(\<forall>i < length (http_outcomes (fst (snd (wait_for_localstack env s)))).
       ready (http_outcomes (fst (snd (wait_for_localstack env s))) ! i) \<longrightarrow>
         Suc i = length (http_outcomes (fst (snd (wait_for_localstack env s))))
         \<and> fst (wait_for_localstack env s) = Inr ())
   \<and> (fst (wait_for_localstack env s) = Inr () \<longrightarrow>
         http_outcomes (fst (snd (wait_for_localstack env s))) \<noteq> []
         \<and> ready (last (http_outcomes (fst (snd (wait_for_localstack env s))))))
   \<and> (\<forall>i < length (http_outcomes (fst (snd (wait_for_localstack env s)))).
         network_error (http_outcomes (fst (snd (wait_for_localstack env s))) ! i) \<longrightarrow>
           Suc i < length (http_outcomes (fst (snd (wait_for_localstack env s))))
           \<or> (Suc i = TIMEOUT div 2 \<and> fst (wait_for_localstack env s) = Inl (SystemExit 1)))
   \<and> (\<forall>i < length (http_outcomes (fst (snd (wait_for_localstack env s)))).
         not_yet_ready (http_outcomes (fst (snd (wait_for_localstack env s))) ! i) \<longrightarrow>
           Suc i < length (http_outcomes (fst (snd (wait_for_localstack env s))))
           \<or> (Suc i = TIMEOUT div 2 \<and> fst (wait_for_localstack env s) = Inl (SystemExit 1)))
   \<and> http_outcomes (fst (snd (wait_for_localstack env s))) \<noteq> []
   \<and> length (http_outcomes (fst (snd (wait_for_localstack env s)))) \<le> TIMEOUT div 2"
proof -
  define r where "r = fst (wait_loop env 0 s)"
  define outs where "outs = http_outcomes (fst (snd (wait_loop env 0 s)))"
  have v: "list_all not_yet_ready (butlast outs)" "length outs \<le> 30"
    "outs \<noteq> [] \<Longrightarrow> ready (last outs) \<Longrightarrow> r = Inr ()"
    "outs \<noteq> [] \<Longrightarrow> \<not> ready (last outs) \<Longrightarrow> not_yet_ready (last outs) \<Longrightarrow>
       length outs = 30 \<and> r = Inl (SystemExit 1)"
    "outs = [] \<Longrightarrow> r = Inl (SystemExit 1)"
    "outs \<noteq> [] \<Longrightarrow> \<not> ready (last outs) \<Longrightarrow> \<not> not_yet_ready (last outs) \<Longrightarrow>
       \<exists>m. r = Inl (OtherException m)"
    "outs \<noteq> []"
    using wait_loop_verdict [of 0 env s]
    by (auto simp: poll_verdict_def Let_def attempts_left_0 r_def outs_def split: if_splits)
  have first: "Suc i = length outs \<and> r = Inr ()" if "i < length outs" "ready (outs ! i)" for i
  proof -
    have "\<not> not_yet_ready (outs ! i)"
      using that(2) by (rule ready_not_yet)
    then have last: "Suc i = length outs"
      using v(1) that(1) by (rule butlast_all_nth [rotated 2])
    then have "last outs = outs ! i \<and> outs \<noteq> []"
      by (rule last_is_nth)
    then show ?thesis
      using last v(3) that(2) by simp
  qed
  have success: "outs \<noteq> [] \<and> ready (last outs)" if "r = Inr ()"
    using that v(4,5,6) by (cases "outs = []"; cases "ready (last outs)"; cases "not_yet_ready (last outs)") auto
  have goes_on: "Suc i < length outs \<or> (Suc i = 30 \<and> r = Inl (SystemExit 1))"
    if "i < length outs" "not_yet_ready (outs ! i)" for i
  proof (cases "Suc i < length outs")
    case False
    with that(1) have "Suc i = length outs"
      by simp
    then have l: "last outs = outs ! i \<and> outs \<noteq> []"
      by (rule last_is_nth)
    have "not_yet_ready (last outs)" "\<not> ready (last outs)"
      using that(2) l ready_not_yet by auto
    then show ?thesis
      using v(4) l \<open>Suc i = length outs\<close> by simp
  qed simp
  have network: "Suc i < length outs \<or> (Suc i = 30 \<and> r = Inl (SystemExit 1))"
    if "i < length outs" "network_error (outs ! i)" for i
    using that goes_on network_error_not_yet by blast
  show ?thesis
    using first success network goes_on v(2) v(7)
    by (simp add: wait_for_localstack_outcomes r_def outs_def attempts_left_0)
qed

lemma third_try_run:
  "fst (wait_for_localstack third_try_env demo_state) = Inr ()"
  "http_outcomes (fst (snd (wait_for_localstack third_try_env demo_state)))
     = [Response 204 [], Fails (UrlError ''Connection refused''), Response 200 ''{}'']"
proof -
  have step0: "http third_try_env HEALTH_CHECK_URL 2 0 = (Response 204 [], 1)"
    and step1: "http third_try_env HEALTH_CHECK_URL 2 1 = (Fails (UrlError ''Connection refused''), 2)"
    and step2: "http third_try_env HEALTH_CHECK_URL 2 2 = (Response 200 ''{}'', 3)"
    and nap: "sleep third_try_env 2 w = w" for w
    by (simp_all add: demo_defs)
  have nr: "not_yet_ready (Fails (UrlError ''Connection refused''))"
    and other: "not_yet_ready (Response 204 [])"
    by (simp_all add: not_yet_ready_def)
  have t: "(0::nat) < TIMEOUT" "0 + 2 < TIMEOUT" "0 + 2 + 2 < TIMEOUT"
    by (simp_all add: TIMEOUT_def)
  have "wait_loop third_try_env (0 + 2 + 2) (demo_state\<lparr>world := 2\<rparr>)
      = (Inr (), [HttpGet HEALTH_CHECK_URL 2 (Response 200 ''{}''),
                  Print (emoji_check @ '' LocalStack is ready!'')], demo_state\<lparr>world := 3\<rparr>)"
    using wait_loop_ready [OF t(3), of third_try_env "demo_state\<lparr>world := 2\<rparr>"] step2 by simp
  then have "fst (wait_loop third_try_env (0 + 2) (demo_state\<lparr>world := 1\<rparr>)) = Inr ()
      \<and> http_outcomes (fst (snd (wait_loop third_try_env (0 + 2) (demo_state\<lparr>world := 1\<rparr>))))
          = [Fails (UrlError ''Connection refused''), Response 200 ''{}'']"
    using wait_loop_again [OF t(2), of third_try_env "demo_state\<lparr>world := 1\<rparr>", OF _ nr] step1 nap
    by simp
  then have "fst (wait_loop third_try_env 0 demo_state) = Inr ()
      \<and> http_outcomes (fst (snd (wait_loop third_try_env 0 demo_state)))
          = [Response 204 [], Fails (UrlError ''Connection refused''), Response 200 ''{}'']"
    using wait_loop_again [OF t(1), of third_try_env demo_state, OF _ other] step0 nap
    by (simp add: demo_state_def split: prod.splits)
  then show "fst (wait_for_localstack third_try_env demo_state) = Inr ()"
    and "http_outcomes (fst (snd (wait_for_localstack third_try_env demo_state)))
     = [Response 204 [], Fails (UrlError ''Connection refused''), Response 200 ''{}'']"
    by (simp_all add: wait_for_localstack_outcomes)
qed

theorem readiness_first_success_witness:
  "not_yet_ready (http_outcomes (fst (snd (wait_for_localstack third_try_env demo_state))) ! 0)
   \<and> \<not> network_error (http_outcomes (fst (snd (wait_for_localstack third_try_env demo_state))) ! 0)
   \<and> network_error (http_outcomes (fst (snd (wait_for_localstack third_try_env demo_state))) ! 1)
   \<and> ready (http_outcomes (fst (snd (wait_for_localstack third_try_env demo_state))) ! 2)
   \<and> length (http_outcomes (fst (snd (wait_for_localstack third_try_env demo_state)))) = 3
   \<and> fst (wait_for_localstack third_try_env demo_state) = Inr ()"
  using readiness_first_success [of third_try_env demo_state]
  by (simp add: third_try_run not_yet_ready_def)

section \<open>The working directory\<close>

named_theorems keeps_cwd_intros

lemma keeps_cwd_ret [keeps_cwd_intros]: "keeps_cwd (ret x)"
  by (simp add: keeps_cwd_def ret_def)

lemma keeps_cwd_sys_exit [keeps_cwd_intros]: "keeps_cwd (sys_exit n)"
  by (simp add: keeps_cwd_def raise_def sys_exit_def)

lemma keeps_cwd_print [keeps_cwd_intros]: "keeps_cwd (print msg)"
  by (simp add: keeps_cwd_def print_def)

lemma keeps_cwd_print_step [keeps_cwd_intros]: "keeps_cwd (print_step msg e)"
  by (simp add: keeps_cwd_def print_def print_step_def)


lemma keeps_cwd_bnd:
  "keeps_cwd m \<Longrightarrow> (\<And>x. keeps_cwd (k x)) \<Longrightarrow> keeps_cwd (bnd m k)"
  by (auto simp: keeps_cwd_def bnd_def split: prod.splits sum.splits) (metis snd_conv)+

lemma keeps_cwd_seq [keeps_cwd_intros]:
  "keeps_cwd m \<Longrightarrow> keeps_cwd n \<Longrightarrow> keeps_cwd (seq m n)"
  by (simp add: seq_def keeps_cwd_bnd)

lemma keeps_cwd_when_do [keeps_cwd_intros]: "(b \<Longrightarrow> keeps_cwd m) \<Longrightarrow> keeps_cwd (when_do b m)"
  by (simp add: when_do_def keeps_cwd_ret)

text \<open>
  The pattern of both functions: remember the directory, \<open>try\<close> anything, and go back in
  \<open>finally\<close>.
\<close>

lemma keeps_cwd_scoped [keeps_cwd_intros]:
  "keeps_cwd (bnd get_cwd (\<lambda>original_dir. try_finally (m original_dir) (chdir original_dir)))"
  by (simp add: keeps_cwd_def bnd_def get_cwd_def try_finally_def chdir_def
      split: prod.splits sum.splits)




section \<open>Events of the teardown steps\<close>

lemma gated_append:
  "gated ok act (xs @ ys) = (gated ok act xs \<and> ((\<exists>x \<in> set xs. ok x) \<or> gated ok act ys))"
  by (induction xs) auto

lemma gated_none: "list_all (\<lambda>e. \<not> act e) xs \<Longrightarrow> gated ok act xs"
  by (induction xs) auto

lemma gated_nth:
  "gated ok act evs \<longleftrightarrow> (\<forall>i < length evs. act (evs ! i) \<longrightarrow> (\<exists>j < i. ok (evs ! j)))"
proof (induction evs)
  case Nil
  then show ?case by simp
next
  case (Cons e es)
  show ?case
  proof
    assume g: "gated ok act (e # es)"
    show "\<forall>i < length (e # es). act ((e # es) ! i) \<longrightarrow> (\<exists>j < i. ok ((e # es) ! j))"
    proof (intro allI impI)
      fix i assume i: "i < length (e # es)" "act ((e # es) ! i)"
      show "\<exists>j < i. ok ((e # es) ! j)"
      proof (cases i)
        case 0
        with g i show ?thesis by simp
      next
        case (Suc k)
        show ?thesis
        proof (cases "ok e")
          case True
          then show ?thesis using Suc by (intro exI [of _ 0]) simp
        next
          case False
          with g have "gated ok act es" by simp
          with Cons.IH i Suc obtain j where "j < k" "ok (es ! j)" by auto
          then show ?thesis using Suc by (intro exI [of _ "Suc j"]) simp
        qed
      qed
    qed
  next
    assume r: "\<forall>i < length (e # es). act ((e # es) ! i) \<longrightarrow> (\<exists>j < i. ok ((e # es) ! j))"
    have "\<not> act e" using r by (auto dest: spec [of _ 0])
    moreover have "gated ok act es" if "\<not> ok e"
    proof -
      have "\<exists>j < i. ok (es ! j)" if i: "i < length es" "act (es ! i)" for i
      proof -
        from r i obtain j where j: "j < Suc i" "ok ((e # es) ! j)"
          by (auto dest!: spec [of _ "Suc i"])
        with \<open>\<not> ok e\<close> obtain k where "j = Suc k" by (cases j) auto
        with j show ?thesis by auto
      qed
      with Cons.IH show ?thesis by simp
    qed
    ultimately show "gated ok act (e # es)" by auto
  qed
qed


named_theorems emits_intros

lemma emits_ret [emits_intros]: "emits P (ret x)"
  by (simp add: emits_def ret_def)

lemma emits_raise [emits_intros]: "emits P (raise e)"
  by (simp add: emits_def raise_def)

lemma emits_sys_exit [emits_intros]: "emits P (sys_exit n)"
  by (simp add: emits_def raise_def sys_exit_def)

lemma emits_print [emits_intros]: "quiet P \<Longrightarrow> emits P (print msg)"
  by (simp add: emits_def print_def quiet_def)

lemma emits_print_step [emits_intros]: "quiet P \<Longrightarrow> emits P (print_step msg e)"
  by (simp add: emits_def print_def print_step_def quiet_def)

lemma emits_exists [emits_intros]: "emits P (exists p)"
  by (simp add: emits_def exists_def)

lemma emits_get_cwd [emits_intros]: "emits P get_cwd"
  by (simp add: emits_def get_cwd_def)

lemma emits_chdir [emits_intros]: "quiet P \<Longrightarrow> emits P (chdir p)"
  by (simp add: emits_def chdir_def quiet_def)

lemma emits_bnd [emits_intros]:
  "emits P m \<Longrightarrow> (\<And>x. emits P (k x)) \<Longrightarrow> emits P (bnd m k)"
  unfolding emits_def bnd_def
  by (auto split: prod.splits sum.splits) (metis fst_conv snd_conv)+

lemma emits_seq [emits_intros]: "emits P m \<Longrightarrow> emits P n \<Longrightarrow> emits P (seq m n)"
  by (simp add: seq_def emits_bnd)

lemma emits_when_do [emits_intros]: "(b \<Longrightarrow> emits P m) \<Longrightarrow> emits P (when_do b m)"
  by (simp add: when_do_def emits_ret)

lemma emits_if [emits_intros]:
  "(b \<Longrightarrow> emits P m) \<Longrightarrow> (\<not> b \<Longrightarrow> emits P n) \<Longrightarrow> emits P (if b then m else n)"
  by simp

lemma emits_case_option [emits_intros]:
  "(x = None \<Longrightarrow> emits P m) \<Longrightarrow> (\<And>y. x = Some y \<Longrightarrow> emits P (n y)) \<Longrightarrow>
   emits P (case x of None \<Rightarrow> m | Some y \<Rightarrow> n y)"
  by (cases x) simp_all

lemma emits_try_except:
  "emits P m \<Longrightarrow> (\<And>e k. h e = Some k \<Longrightarrow> emits P k) \<Longrightarrow> emits P (try_except m h)"
  unfolding emits_def try_except_def
  by (auto split: prod.splits sum.splits option.splits) (metis fst_conv snd_conv)+

lemma emits_try_finally [emits_intros]:
  "emits P m \<Longrightarrow> emits P h \<Longrightarrow> emits P (try_finally m h)"
  unfolding emits_def try_finally_def
  by (auto split: prod.splits sum.splits) (metis fst_conv snd_conv)+

lemma emits_for_each [emits_intros]: "(\<And>x. emits P (body x)) \<Longrightarrow> emits P (for_each xs body)"
  by (induction xs) (simp_all add: emits_ret emits_seq)

lemma emits_input [emits_intros]: "(\<And>a. P (Input prompt a)) \<Longrightarrow> emits P (input env prompt)"
  by (simp add: emits_def input_def split: prod.splits option.splits)

lemma emits_rmtree [emits_intros]: "P (Rmtree p) \<Longrightarrow> emits P (rmtree p)"
  by (simp add: emits_def rmtree_def)

lemma emits_subprocess_run:
  "P (Run cmd check cap None) \<Longrightarrow> emits P (subprocess_run env cmd check cap)"
  by (simp add: emits_def subprocess_run_def Let_def split: prod.splits proc_outcome.splits)

lemma emits_teardown_run_command [emits_intros]:
  "quiet P \<Longrightarrow> P (Run cmd check cap None) \<Longrightarrow> emits P (teardown_run_command env cmd check cap)"
  unfolding teardown_run_command_def
  by (rule emits_try_except)
     (auto intro!: emits_intros emits_subprocess_run split: exn.splits)

lemma emits_run_command [emits_intros]:
  "quiet P \<Longrightarrow> P (Run cmd check cap None) \<Longrightarrow> emits P (run_command env cmd check cap)"
  unfolding run_command_def
  by (rule emits_try_except)
     (auto intro!: emits_intros emits_subprocess_run split: exn.splits)

lemma emits_stop_localstack:
  "quiet P \<Longrightarrow> P (Run [''docker-compose'', ''down''] False False None) \<Longrightarrow>
   emits P (stop_localstack env)"
  unfolding stop_localstack_def Let_def
  by (intro emits_intros) simp_all

lemma emits_remove_volumes:
  assumes "quiet P" "\<And>a. P (Input remove_volumes_prompt a)" "\<And>p. P (Rmtree p)"
  shows "emits P (remove_volumes env)"
  unfolding remove_volumes_def Let_def
  using assms
  by (intro emits_intros emits_try_except) (auto intro!: emits_intros split: exn.splits)

lemma emits_cleanup_containers:
  assumes "quiet P" "\<And>a. P (Input cleanup_containers_prompt a)"
    "\<And>c. P (Run [''docker'', ''rm'', ''-f'', c] False False None)"
    "P (Run [''docker'', ''ps'', ''-a'', ''--filter'', ''name=localstack'', ''--format'', ''{{.Names}}'']
         False True None)"
  shows "emits P (cleanup_containers env)"
  unfolding cleanup_containers_def Let_def
  using assms
  by (intro emits_intros) simp_all

lemma emits_cleanup_images:
  assumes "quiet P" "\<And>a. P (Input cleanup_images_prompt a)"
    "\<And>c. P (Run [''docker'', ''rmi'', c] False False None)"
    "P (Run [''docker'', ''images'', ''localstack/localstack'', ''--format'', ''{{.ID}}'']
         False True None)"
  shows "emits P (cleanup_images env)"
  unfolding cleanup_images_def Let_def
  using assms
  by (intro emits_intros) simp_all

named_theorems gates_intros

lemma gates_emits: "emits (\<lambda>e. \<not> act e) m \<Longrightarrow> gates ok act m"
  by (simp add: gates_def emits_def gated_none)

lemma gates_bnd [gates_intros]:
  "gates ok act m \<Longrightarrow> (\<And>x. gates ok act (k x)) \<Longrightarrow> gates ok act (bnd m k)"
  unfolding gates_def bnd_def
  by (auto simp: gated_append split: prod.splits sum.splits) (metis fst_conv snd_conv)+

lemma gates_seq [gates_intros]: "gates ok act m \<Longrightarrow> gates ok act n \<Longrightarrow> gates ok act (seq m n)"
  by (simp add: seq_def gates_bnd)

lemma gates_if [gates_intros]:
  "(b \<Longrightarrow> gates ok act m) \<Longrightarrow> (\<not> b \<Longrightarrow> gates ok act n) \<Longrightarrow> gates ok act (if b then m else n)"
  by simp

lemma gates_case_option [gates_intros]:
  "(x = None \<Longrightarrow> gates ok act m) \<Longrightarrow> (\<And>y. x = Some y \<Longrightarrow> gates ok act (n y)) \<Longrightarrow>
   gates ok act (case x of None \<Rightarrow> m | Some y \<Rightarrow> n y)"
  by (cases x) simp_all

text \<open>A prompt whose answer decides: after any answer but yes, the action must not follow.\<close>

lemma gates_input:
  assumes "\<And>a. \<not> act (Input prompt a)"
    and "\<And>a. \<not> ok (Input prompt (Some a)) \<Longrightarrow> gates ok act (k a)"
  shows "gates ok act (bnd (input env prompt) k)"
  unfolding gates_def
proof
  fix s
  show "gated ok act (fst (snd (bnd (input env prompt) k s)))"
  proof (cases "stdin env prompt (world s)")
    case (Pair answer w)
    show ?thesis
    proof (cases answer)
      case None
      with Pair show ?thesis
        by (simp add: bnd_def input_def assms(1))
    next
      case (Some a)
      show ?thesis
      proof (cases "ok (Input prompt (Some a))")
        case True
        with Pair Some show ?thesis
          by (simp add: bnd_def input_def assms(1) split: prod.splits)
      next
        case False
        then have "gated ok act (fst (snd (k a (s\<lparr>world := w\<rparr>))))"
          using assms(2) by (simp add: gates_def)
        with Pair Some show ?thesis
          by (auto simp: bnd_def input_def assms(1) split: prod.splits)
      qed
    qed
  qed
qed

lemma quiet_simps:
  "quiet (\<lambda>e. \<not> is_rmtree e)" "quiet (\<lambda>e. \<not> removes_container e)"
  "quiet (\<lambda>e. \<not> removes_image e)" "quiet (\<lambda>e. \<not> asks p e)" "quiet (\<lambda>e. \<not> destructive e)"
  by (simp_all add: quiet_def destructive_def)

lemma prompts_distinct:
  "cleanup_images_prompt \<noteq> remove_volumes_prompt"
  "cleanup_images_prompt \<noteq> cleanup_containers_prompt"
  "cleanup_images_prompt \<noteq> continue_prompt"
  "cleanup_images_prompt \<noteq> images_prompt"
  by (simp_all add: cleanup_images_prompt_def remove_volumes_prompt_def
      cleanup_containers_prompt_def continue_prompt_def images_prompt_def)

lemma remove_volumes_gated:
  "gates (confirmed remove_volumes_prompt) is_rmtree (remove_volumes env)"
  unfolding remove_volumes_def Let_def
  by (intro gates_intros gates_input gates_emits emits_intros quiet_simps) simp_all

lemma cleanup_containers_gated:
  "gates (confirmed cleanup_containers_prompt) removes_container (cleanup_containers env)"
  unfolding cleanup_containers_def Let_def
  by (intro gates_intros gates_input gates_emits emits_intros quiet_simps) simp_all

lemma cleanup_images_gated:
  "gates (confirmed cleanup_images_prompt) removes_image (cleanup_images env)"
  unfolding cleanup_images_def Let_def
  by (intro gates_intros gates_input gates_emits emits_intros quiet_simps) simp_all

section \<open>TeardownCoordinator\<close>

lemmas gates_plain =
  gates_emits [of _ "stop_localstack env" for env] gates_emits [of _ "remove_volumes env" for env]
  gates_emits [of _ "cleanup_containers env" for env]
  gates_emits [of _ "cleanup_images env" for env] gates_emits [of _ "print m" for m]
  gates_emits [of _ "print_step m e" for m e] gates_emits [of _ "when_do b m" for b m]
  gates_emits [of _ "input env p" for env p]
  emits_stop_localstack emits_remove_volumes emits_cleanup_containers emits_cleanup_images

lemma teardown_rmtree_gated:
  "gates (confirmed remove_volumes_prompt) is_rmtree (teardown_main env)"
  unfolding teardown_main_def
  by (intro gates_intros remove_volumes_gated gates_plain emits_intros quiet_simps) simp_all

lemma teardown_containers_gated:
  "gates (confirmed cleanup_containers_prompt) removes_container (teardown_main env)"
  unfolding teardown_main_def
  by (intro gates_intros cleanup_containers_gated gates_plain emits_intros quiet_simps) simp_all

lemma teardown_images_gated_inner:
  "gates (confirmed cleanup_images_prompt) removes_image (teardown_main env)"
  unfolding teardown_main_def
  by (intro gates_intros cleanup_images_gated gates_plain emits_intros quiet_simps) simp_all

lemma teardown_images_gated_outer:
  "gates (confirmed images_prompt) removes_image (teardown_main env)"
  unfolding teardown_main_def
  by (intro gates_input gates_intros gates_plain emits_intros quiet_simps) simp_all

lemma teardown_inner_prompt_gated:
  "gates (confirmed images_prompt) (asks cleanup_images_prompt) (teardown_main env)"
  unfolding teardown_main_def
  by (intro gates_input gates_intros gates_plain emits_intros quiet_simps)
     (simp_all add: prompts_distinct prompts_distinct [symmetric])

lemma gatesD:
  "gates ok act m \<Longrightarrow> i < length (fst (snd (m s))) \<Longrightarrow> act (fst (snd (m s)) ! i) \<Longrightarrow>
   \<exists>j < i. ok (fst (snd (m s)) ! j)"
  by (simp add: gates_def gated_nth)

text \<open>
  C10. In every run of the teardown script: a directory is deleted only after the operator
  answered the data prompt with a text whose lower-case form is \<open>y\<close>; \<open>docker rm\<close> is
  run only after such an answer to the container prompt; \<open>docker rmi\<close> is run only after
  such an answer to the prompt of the main flow and such an answer to the prompt inside
  \<open>cleanup_images\<close>, and that second prompt is put only after the first was answered so.
  Any other answer, the empty one included, is not such an answer, so the action is skipped.
\<close>

theorem destructive_actions_confirmed:
  "(\<forall>i < length (fst (snd (teardown_main env s))).
      is_rmtree (fst (snd (teardown_main env s)) ! i) \<longrightarrow>
        (\<exists>j < i. confirmed remove_volumes_prompt (fst (snd (teardown_main env s)) ! j)))
   \<and> (\<forall>i < length (fst (snd (teardown_main env s))).
      removes_container (fst (snd (teardown_main env s)) ! i) \<longrightarrow>
        (\<exists>j < i. confirmed cleanup_containers_prompt (fst (snd (teardown_main env s)) ! j)))
   \<and> (\<forall>i < length (fst (snd (teardown_main env s))).
      removes_image (fst (snd (teardown_main env s)) ! i) \<longrightarrow>
        (\<exists>j < i. confirmed images_prompt (fst (snd (teardown_main env s)) ! j))
        \<and> (\<exists>j < i. confirmed cleanup_images_prompt (fst (snd (teardown_main env s)) ! j)))
   \<and> (\<forall>i < length (fst (snd (teardown_main env s))).
      asks cleanup_images_prompt (fst (snd (teardown_main env s)) ! i) \<longrightarrow>
        (\<exists>j < i. confirmed images_prompt (fst (snd (teardown_main env s)) ! j)))
   \<and> \<not> confirmed remove_volumes_prompt (Input remove_volumes_prompt (Some []))
   \<and> (\<forall>p a. confirmed p (Input p (Some a)) \<longleftrightarrow> lower a = ''y'')"
  using gatesD [OF teardown_rmtree_gated, of _ env s]
    gatesD [OF teardown_containers_gated, of _ env s]
    gatesD [OF teardown_images_gated_inner, of _ env s]
    gatesD [OF teardown_images_gated_outer, of _ env s]
    gatesD [OF teardown_inner_prompt_gated, of _ env s]
  by (simp add: lower_def)

theorem destructive_actions_confirmed_witness:
  "(\<exists>i < length eager_events. is_rmtree (eager_events ! i)
      \<and> (\<exists>j < i. confirmed remove_volumes_prompt (eager_events ! j)))
   \<and> (\<exists>i < length eager_events. removes_container (eager_events ! i)
      \<and> (\<exists>j < i. confirmed cleanup_containers_prompt (eager_events ! j)))
   \<and> (\<exists>i < length eager_events. removes_image (eager_events ! i)
      \<and> (\<exists>j < i. confirmed images_prompt (eager_events ! j))
      \<and> (\<exists>j < i. confirmed cleanup_images_prompt (eager_events ! j)))"
proof -
  have "list_ex is_rmtree eager_events" "list_ex removes_container eager_events"
    "list_ex removes_image eager_events"
    by code_simp+
  then obtain i j k where
    "i < length eager_events" "is_rmtree (eager_events ! i)"
    "j < length eager_events" "removes_container (eager_events ! j)"
    "k < length eager_events" "removes_image (eager_events ! k)"
    by (auto simp: list_ex_length)
  then show ?thesis
    using destructive_actions_confirmed [of eager_env eager_state]
    unfolding eager_events_def [symmetric] by blast
qed

lemma stop_localstack_harmless: "emits (\<lambda>e. \<not> destructive e) (stop_localstack env)"
  by (rule emits_stop_localstack) (simp_all add: quiet_def destructive_def)

text \<open>
  C7. When \<open>stop_localstack\<close> gives \<open>False\<close> (the compose file is missing, or
  \<open>docker-compose down\<close> did not exit with 0) and the operator's answer to the prompt
  \<open>Continue with cleanup anyway?\<close> is not \<open>y\<close> in lower case, the script ends with status
  0; nothing it did deletes a directory or runs \<open>docker rm\<close> or \<open>docker rmi\<close>, and the
  file system is as the stop step left it.
\<close>

theorem teardown_declined:
  assumes "stop_localstack env s = (Inr False, evs1, s1)"
    and "stdin env continue_prompt (world s1) = (Some a, w)"
    and "lower a \<noteq> ''y''"
  shows "fst (teardown_main env s) = Inl (SystemExit 0)
       \<and> exit_status (fst (teardown_main env s)) = 0
       \<and> list_all (\<lambda>e. \<not> destructive e) (fst (snd (teardown_main env s)))
       \<and> fs (snd (snd (teardown_main env s))) = fs s1
       \<and> last (fst (snd (teardown_main env s))) = Print ''Aborted.''"
proof -
  have "list_all (\<lambda>e. \<not> destructive e) (fst (snd (stop_localstack env s)))"
    using stop_localstack_harmless [of env] by (simp add: emits_def)
  then have "list_all (\<lambda>e. \<not> destructive e) evs1"
    using assms(1) by simp
  then show ?thesis
    using assms
    by (simp add: teardown_main_def bnd_def seq_def print_def when_do_def input_def sys_exit_def
        raise_def exit_status_def destructive_def)
qed

theorem teardown_declined_witness:
  "fst (stop_localstack failing_env demo_state) = Inr False
   \<and> fst (stdin failing_env continue_prompt 0) = Some ''n''
   \<and> lower ''n'' \<noteq> ''y''
   \<and> fst (teardown_main failing_env demo_state) = Inl (SystemExit 0)
   \<and> exit_status (fst (teardown_main failing_env demo_state)) = 0
   \<and> list_all (\<lambda>e. \<not> destructive e) (fst (snd (teardown_main failing_env demo_state)))"
proof -
  have "fst (stop_localstack failing_env demo_state) = Inr False
      \<and> snd (snd (stop_localstack failing_env demo_state)) = demo_state"
    by (simp add: stop_localstack_def teardown_run_command_def subprocess_run_def prog_defs
        demo_defs Let_def parent_def path_exists_def)
  then obtain evs1 where stop: "stop_localstack failing_env demo_state = (Inr False, evs1, demo_state)"
    by (cases "stop_localstack failing_env demo_state") auto
  have answer: "stdin failing_env continue_prompt (world demo_state) = (Some ''n'', 0)"
    by (simp add: demo_defs)
  have no: "lower ''n'' \<noteq> ''y''"
    by (simp add: lower_def lower_char_def)
  have world: "world demo_state = 0"
    by (simp add: demo_defs)
  show ?thesis
    using teardown_declined [OF stop answer no] stop answer no world
    by (simp add: exit_status_def)
qed

section \<open>PrerequisiteChecker\<close>

lemma zip_check_health:
  assumes "proc env [''dotnet'', ''--version''] (cwd s) (fs s) (world s) = (Exited 0 o1 e1, f1, w1)"
    and "proc env [''aws'', ''--version''] (cwd s) f1 w1 = (Exited 0 o2 e2, f2, w2)"
    and "http env (LOCALSTACK_ENDPOINT @ ''/_localstack/health'') 2 w2 = (out, w3)"
  shows "fst (zip_check_prerequisites env s) = (if ready out then Inr () else Inl (SystemExit 1))
       \<and> filter is_http_get (fst (snd (zip_check_prerequisites env s)))
           = [HttpGet (LOCALSTACK_ENDPOINT @ ''/_localstack/health'') 2 out]
       \<and> filter is_sleep (fst (snd (zip_check_prerequisites env s))) = []"
proof (cases out)
  case (Response status body)
  with assms show ?thesis
    by (simp add: zip_check_prerequisites_def run_command_def subprocess_run_def prog_defs Let_def)
next
  case (Fails e)
  with assms show ?thesis
    by (cases e)
       (simp_all add: zip_check_prerequisites_def run_command_def subprocess_run_def prog_defs
          Let_def exn_of_http_error_def)
qed

lemma image_check_container:
  assumes "proc env [''docker'', ''--version''] (cwd s) (fs s) (world s) = (Exited 0 o1 e1, f1, w1)"
    and "proc env [''aws'', ''--version''] (cwd s) f1 w1 = (Exited 0 o2 e2, f2, w2)"
    and "proc env docker_ps_cmd (cwd s) f2 w2 = (Exited rc out err, f3, w3)"
  shows "fst (image_check_prerequisites env s) = (if strip out = [] then Inl (SystemExit 1) else Inr ())
       \<and> runs (fst (snd (image_check_prerequisites env s)))
           = [Run [''docker'', ''--version''] True True None, Run [''aws'', ''--version''] True True None,
              Run docker_ps_cmd False True None]"
  using assms
  by (simp add: image_check_prerequisites_def run_command_def subprocess_run_def prog_defs Let_def
      docker_ps_cmd_def runs_def)


lemma at_most_emits: "emits (\<lambda>e. \<not> Q e) m \<Longrightarrow> at_most 0 Q m"
  by (auto simp: at_most_def emits_def list_all_iff filter_empty_conv)

lemma at_most_bnd:
  assumes "at_most a Q m" "\<And>x. at_most b Q (k x)"
  shows "at_most (a + b) Q (bnd m k)"
  unfolding at_most_def
proof
  fix s
  obtain r evs s' where m: "m s = (r, evs, s')"
    by (cases "m s")
  have a: "length (filter Q evs) \<le> a"
    using assms(1) m by (auto simp: at_most_def dest: spec [of _ s])
  show "length (filter Q (fst (snd (bnd m k s)))) \<le> a + b"
  proof (cases r)
    case (Inl e)
    with m a show ?thesis by (simp add: bnd_def)
  next
    case (Inr x)
    obtain r' evs' s'' where k: "k x s' = (r', evs', s'')"
      by (cases "k x s'")
    have "length (filter Q evs') \<le> b"
      using assms(2) [of x] k by (auto simp: at_most_def dest: spec [of _ s'])
    with m a Inr k show ?thesis by (simp add: bnd_def)
  qed
qed

lemma at_most_seq: "at_most a Q m \<Longrightarrow> at_most b Q n \<Longrightarrow> at_most (a + b) Q (seq m n)"
  by (simp add: seq_def at_most_bnd)

lemma emits_urlopen [emits_intros]:
  "(\<And>out. P (HttpGet url t out)) \<Longrightarrow> emits P (urlopen env url t)"
  by (simp add: emits_def urlopen_def split: prod.splits http_outcome.splits)

lemma quiet_more: "quiet (\<lambda>e. \<not> is_sleep e)" "quiet (\<lambda>e. \<not> is_http_get e)"
  by (simp_all add: quiet_def)

lemma emits_tool_check:
  assumes "quiet P" "P (Run cmd True True None)"
  shows "emits P (try_except (seq (run_command env cmd True True) (ret ()))
           (\<lambda>e. case e of SystemExit _ \<Rightarrow> Some (seq (print msg) (sys_exit 1)) | _ \<Rightarrow> None))"
  using assms
  by (intro emits_try_except emits_intros) (auto intro!: emits_intros split: exn.splits)

lemma health_try_one_get:
  "at_most 1 is_http_get
     (try_except
        (bnd (urlopen env url t) (\<lambda>response.
           if fst response = 200 then seq (print msg) (ret True) else ret False))
        (\<lambda>e. case e of SystemExit _ \<Rightarrow> None | _ \<Rightarrow> Some (ret False)))"
  by (auto simp: at_most_def try_except_def bnd_def urlopen_def seq_def print_def ret_def
      split: prod.splits http_outcome.splits exn.splits sum.splits)

lemma zip_check_no_sleep: "emits (\<lambda>e. \<not> is_sleep e) (zip_check_prerequisites env)"
  unfolding zip_check_prerequisites_def
  by (intro emits_intros emits_tool_check emits_try_except quiet_more)
     (auto intro!: emits_intros quiet_more split: exn.splits)

lemma zip_check_one_get: "at_most 1 is_http_get (zip_check_prerequisites env)"
proof -
  have "at_most (0 + (0 + (0 + (1 + 0)))) is_http_get (zip_check_prerequisites env)"
    unfolding zip_check_prerequisites_def
    by (intro at_most_seq at_most_bnd health_try_one_get at_most_emits emits_tool_check
          emits_intros quiet_more) simp_all
  then show ?thesis by simp
qed

lemma image_check_quiet:
  "emits (\<lambda>e. \<not> is_sleep e \<and> \<not> is_http_get e) (image_check_prerequisites env)"
  unfolding image_check_prerequisites_def
  by (intro emits_intros emits_tool_check) (simp_all add: quiet_def)

text \<open>
  C6, as the code has it. \<open>check_prerequisites\<close> of the ZIP deployment script makes at
  most one GET and never sleeps; when both tool checks pass it makes exactly one GET, of the
  health path with a timeout of 2, returns if the answer is a 200 and ends the run with
  status 1 on any other answer or any exception. \<open>check_prerequisites\<close> of the image
  deployment script makes no GET and never sleeps: when both tool checks pass it asks
  \<open>docker ps\<close> once for containers named localstack, and ends the run with status 1 if
  the output is blank and returns otherwise.
\<close>

theorem prerequisite_check:
  "length (filter is_http_get (fst (snd (zip_check_prerequisites env s)))) \<le> 1
   \<and> filter is_sleep (fst (snd (zip_check_prerequisites env s))) = []
   \<and> (proc env [''dotnet'', ''--version''] (cwd s) (fs s) (world s) = (Exited 0 o1 e1, f1, w1)
        \<and> proc env [''aws'', ''--version''] (cwd s) f1 w1 = (Exited 0 o2 e2, f2, w2)
        \<and> http env (LOCALSTACK_ENDPOINT @ ''/_localstack/health'') 2 w2 = (out, w3) \<longrightarrow>
      fst (zip_check_prerequisites env s) = (if ready out then Inr () else Inl (SystemExit 1))
      \<and> filter is_http_get (fst (snd (zip_check_prerequisites env s)))
          = [HttpGet (LOCALSTACK_ENDPOINT @ ''/_localstack/health'') 2 out])
   \<and> filter is_http_get (fst (snd (image_check_prerequisites env s))) = []
   \<and> filter is_sleep (fst (snd (image_check_prerequisites env s))) = []
   \<and> (proc env [''docker'', ''--version''] (cwd s) (fs s) (world s) = (Exited 0 o1 e1, f1, w1)
        \<and> proc env [''aws'', ''--version''] (cwd s) f1 w1 = (Exited 0 o2 e2, f2, w2)
        \<and> proc env docker_ps_cmd (cwd s) f2 w2 = (Exited rc listing err, f3, w3) \<longrightarrow>
      fst (image_check_prerequisites env s)
        = (if strip listing = [] then Inl (SystemExit 1) else Inr ())
      \<and> runs (fst (snd (image_check_prerequisites env s)))
          = [Run [''docker'', ''--version''] True True None,
             Run [''aws'', ''--version''] True True None,
             Run docker_ps_cmd False True None])"
proof -
  have "filter is_sleep (fst (snd (zip_check_prerequisites env s))) = []"
    using zip_check_no_sleep [of env]
    by (auto simp: emits_def list_all_iff filter_empty_conv)
  moreover have "filter is_http_get (fst (snd (image_check_prerequisites env s))) = []
      \<and> filter is_sleep (fst (snd (image_check_prerequisites env s))) = []"
    using image_check_quiet [of env]
    by (auto simp: emits_def list_all_iff filter_empty_conv)
  ultimately show ?thesis
    using zip_check_one_get [of env] zip_check_health [of env s o1 e1 f1 w1 o2 e2 f2 w2 out w3]
      image_check_container [of env s o1 e1 f1 w1 o2 e2 f2 w2 rc listing err f3 w3]
    by (simp add: at_most_def)
qed

theorem prerequisite_check_witness:
  "fst (zip_check_prerequisites never_ready_env demo_state) = Inl (SystemExit 1)
   \<and> filter is_http_get (fst (snd (zip_check_prerequisites never_ready_env demo_state)))
       = [HttpGet (LOCALSTACK_ENDPOINT @ ''/_localstack/health'') 2
            (Fails (UrlError ''Connection refused''))]
   \<and> fst (image_check_prerequisites unreachable_env demo_state) = Inr ()
   \<and> runs (fst (snd (image_check_prerequisites unreachable_env demo_state)))
       = [Run [''docker'', ''--version''] True True None,
          Run [''aws'', ''--version''] True True None,
          Run docker_ps_cmd False True None]"
proof -
  have tools: "proc never_ready_env cmd (cwd demo_state) f w = (Exited 0 [] [], f, w)" for cmd f w
    by (simp add: demo_defs)
  have refused: "http never_ready_env (LOCALSTACK_ENDPOINT @ ''/_localstack/health'') 2 w
      = (Fails (UrlError ''Connection refused''), w)" for w
    by (simp add: demo_defs)
  have listed: "proc unreachable_env cmd (cwd demo_state) f w
      = (Exited 0 (''localstack-main'' @ [newline]) [], f, w)"
    if "take 2 cmd \<noteq> [''docker'', ''images'']" for cmd f w
    using that by (simp add: demo_defs)
  have name: "strip (''localstack-main'' @ [newline]) \<noteq> []"
    by (simp add: strip_def is_space_def newline_def)
  have zip: "fst (zip_check_prerequisites never_ready_env demo_state) = Inl (SystemExit 1)
      \<and> filter is_http_get (fst (snd (zip_check_prerequisites never_ready_env demo_state)))
          = [HttpGet (LOCALSTACK_ENDPOINT @ ''/_localstack/health'') 2
               (Fails (UrlError ''Connection refused''))]"
    using prerequisite_check [of never_ready_env demo_state "[]" "[]" "fs demo_state"
        "world demo_state" "[]" "[]" "fs demo_state" "world demo_state"
        "Fails (UrlError ''Connection refused'')" "world demo_state"]
      tools refused
    by simp
  have image: "fst (image_check_prerequisites unreachable_env demo_state) = Inr ()
      \<and> runs (fst (snd (image_check_prerequisites unreachable_env demo_state)))
          = [Run [''docker'', ''--version''] True True None,
             Run [''aws'', ''--version''] True True None,
             Run docker_ps_cmd False True None]"
    using prerequisite_check [of unreachable_env demo_state
        "''localstack-main'' @ [newline]" "[]" "fs demo_state"
        "world demo_state" "''localstack-main'' @ [newline]" "[]" "fs demo_state"
        "world demo_state" _ "world demo_state" 0 "''localstack-main'' @ [newline]" "[]"
        "fs demo_state"]
      listed name
    by (simp add: docker_ps_cmd_def)
  show ?thesis
    using zip image by simp
qed

text \<open>
  C6 as stated fails on the image deployment script: its check passes while the health
  endpoint refuses every connection, and it has made no GET.
\<close>

theorem prerequisite_check_counterexample:
  "\<not> ready (fst (http unreachable_env HEALTH_CHECK_URL 2 (world demo_state)))
   \<and> fst (image_check_prerequisites unreachable_env demo_state) = Inr ()
   \<and> filter is_http_get (fst (snd (image_check_prerequisites unreachable_env demo_state))) = []"
  by code_simp

section \<open>verify-localstack.py\<close>

lemma check_port_accessibility_result:
  assumes "http env HEALTH_CHECK_URL 5 (world s) = (out, w)"
  shows "fst (check_port_accessibility env s) = Inr (healthy env out)"
proof (cases out)
  case (Fails e)
  with assms show ?thesis
    by (cases e)
       (simp_all add: check_port_accessibility_def prog_defs healthy_def exn_of_http_error_def)
next
  case (Response status body)
  show ?thesis
  proof (cases "status = 200")
    case False
    with assms Response show ?thesis
      by (simp add: check_port_accessibility_def prog_defs healthy_def)
  next
    case True
    show ?thesis
    proof (cases "json_loads env body")
      case None
      with assms Response True show ?thesis
        by (simp add: check_port_accessibility_def prog_defs healthy_def summarised_def)
    next
      case (Some data)
      show ?thesis
      proof (cases data)
        case (JObject kvs)
        show ?thesis
        proof (cases "map_of kvs ''services''")
          case None
          with assms Response True Some JObject show ?thesis
            by (simp add: check_port_accessibility_def prog_defs healthy_def summarised_def
                dict_get_def dict_items_def Let_def split: option.splits)
        next
          case (Some services)
          with assms Response True \<open>json_loads env body = Some data\<close> JObject show ?thesis
            by (cases services)
               (simp_all add: check_port_accessibility_def prog_defs healthy_def summarised_def
                  dict_get_def dict_items_def Let_def split: option.splits)
        qed
      qed (use assms Response True Some in
           \<open>simp_all add: check_port_accessibility_def prog_defs healthy_def summarised_def
              dict_get_def\<close>)
    qed
  qed
qed

lemma fst_bnd:
  "fst (bnd m k s) = (case fst (m s) of Inl e \<Rightarrow> Inl e | Inr x \<Rightarrow> fst (k x (snd (snd (m s)))))"
  by (simp add: bnd_def split: prod.splits sum.splits)

lemma fst_seq:
  "fst (seq m n s) = (case fst (m s) of Inl e \<Rightarrow> Inl e | Inr x \<Rightarrow> fst (n (snd (snd (m s)))))"
  by (simp add: seq_def fst_bnd)

lemma fst_try_except:
  "fst (try_except m h s) =
     (case fst (m s) of
        Inr x \<Rightarrow> Inr x
      | Inl e \<Rightarrow> (case h e of None \<Rightarrow> Inl e | Some k \<Rightarrow> fst (k (snd (snd (m s))))))"
  by (simp add: try_except_def split: prod.splits sum.splits option.splits)

lemma for_each_returns:
  assumes "\<And>x s. fst (body x s) = Inr ()"
  shows "fst (for_each xs body s) = Inr ()"
  by (induction xs arbitrary: s) (simp_all add: ret_def fst_seq assms)

lemma check_container_status_returns:
  "\<exists>c. fst (check_container_status env s) = Inr c"
proof -
  let ?cmd = "[''docker'', ''ps'', ''--filter'', ''name=localstack'', ''--format'',
               ''{{.Names}}'' @ [tab] @ ''{{.Status}}'' @ [tab] @ ''{{.Ports}}'']"
  obtain p f w where p: "proc env ?cmd (cwd s) (fs s) (world s) = (p, f, w)"
    by (cases "proc env ?cmd (cwd s) (fs s) (world s)")
  have start: "snd (snd (print_step msg e s)) = s" "fst (print_step msg e s) = Inr ()" for msg e
    by (simp_all add: print_step_def print_def)
  show ?thesis
  proof (cases p)
    case NotFound
    with p have "fst (subprocess_run env c True True s) = Inl FileNotFoundError" if "c = ?cmd" for c
      using that by (simp add: subprocess_run_def)
    then show ?thesis
      by (simp add: check_container_status_def fst_seq fst_try_except fst_bnd start
          print_def ret_def)
  next
    case (Exited rc out err)
    show ?thesis
    proof (cases "rc = 0")
      case False
      with p Exited have "fst (subprocess_run env c True True s)
          = Inl (CalledProcessError rc (Some err))" if "c = ?cmd" for c
        using that by (simp add: subprocess_run_def Let_def)
      then show ?thesis
        by (simp add: check_container_status_def fst_seq fst_try_except fst_bnd start
            print_def ret_def)
    next
      case True
      with p Exited have run: "fst (subprocess_run env c True True s)
          = Inr \<lparr>returncode = 0, stdout = Some out, stderr = Some err\<rparr>" if "c = ?cmd" for c
        using that by (simp add: subprocess_run_def Let_def)
      have printed: "fst (print msg s') = Inr ()" for msg and s' :: "'a state"
        by (simp add: print_def)
      show ?thesis
        by (simp add: check_container_status_def fst_seq fst_try_except fst_bnd start run
            for_each_returns printed when_do_def ret_def Let_def)
    qed
  qed
qed

lemma service_test_returns:
  "fst (try_except
          (bnd (subprocess_run_timeout env cmd t) (\<lambda>result.
             if returncode result = 0 then print a else print (b result)))
          (\<lambda>e. case e of SystemExit _ \<Rightarrow> None | _ \<Rightarrow> Some (print (c e))) s) = Inr ()"
  by (auto simp: try_except_def bnd_def subprocess_run_timeout_def print_def
      split: prod.splits timed_outcome.splits proc_outcome.splits sum.splits if_splits)

lemma test_basic_operations_returns: "fst (test_basic_operations env s) = Inr ()"
  by (simp add: test_basic_operations_def fst_seq service_test_returns print_step_def print_def)

lemma verify_main_status:
  "exit_status (fst (verify_main env s)) =
     (if healthy env (fst (http env HEALTH_CHECK_URL 5
                         (world (snd (snd (check_container_status env s))))))
      then 0 else 1)"
proof -
  obtain c where c: "fst (check_container_status env s) = Inr c"
    using check_container_status_returns by blast
  define s1 where "s1 = snd (snd (check_container_status env s))"
  define s2 where "s2 = snd (snd (print [] s1))"
  have s2: "s2 = s1" "world s2 = world s1"
    by (simp_all add: s2_def print_def)
  obtain out w where h: "http env HEALTH_CHECK_URL 5 (world s2) = (out, w)"
    by (cases "http env HEALTH_CHECK_URL 5 (world s2)")
  have port: "fst (check_port_accessibility env s2) = Inr (healthy env out)"
    using h by (rule check_port_accessibility_result)
  have printed: "fst (print msg s') = Inr ()" "snd (snd (print msg s')) = s'"
    for msg and s' :: "'a state"
    by (simp_all add: print_def)
  have "fst (verify_main env s) = (if healthy env out then Inr () else Inl (SystemExit 1))"
    using c port
    by (simp add: verify_main_def fst_seq fst_bnd printed test_basic_operations_returns
        sys_exit_def raise_def s1_def [symmetric] s2)
  then show ?thesis
    using h by (simp add: exit_status_def s1_def s2)
qed

text \<open>
  C9, as the code has it. The status \<open>verify-localstack.py\<close> ends with is 0 when the
  health check gets a 200 whose body \<open>check_port_accessibility\<close> can read (it parses as a
  JSON object whose \<open>services\<close>, if present, is an object), and 1 otherwise: on any other
  status, on any failure of the request, and on a 200 whose body cannot be read so. The
  container check always returns a value and the S3 and Lambda tests always return, so
  neither changes the status.
\<close>

theorem verify_exit_status:
  "exit_status (fst (verify_main env s)) =
     (if healthy env (fst (http env HEALTH_CHECK_URL 5
                         (world (snd (snd (check_container_status env s))))))
      then 0 else 1)
   \<and> (\<exists>c. fst (check_container_status env s) = Inr c)
   \<and> fst (test_basic_operations env s') = Inr ()"
  using verify_main_status [of env s] check_container_status_returns [of env s]
    test_basic_operations_returns [of env s']
  by simp

text \<open>
  C9 as stated fails: the health endpoint returns 200, and the script ends with status 1,
  because the body does not parse.
\<close>

theorem verify_exit_status_counterexample:
  "fst (http garbled_env HEALTH_CHECK_URL 5 (world demo_state))
     = Response 200 ''<html>It works</html>''
   \<and> exit_status (fst (verify_main garbled_env demo_state)) = 1"
  by code_simp

section \<open>BuildPackager\<close>

lemma map_of_filter_key:
  "map_of (filter (\<lambda>(q, _). P q) f) p = (if P p then map_of f p else None)"
  by (induction f) (auto split: prod.splits)

lemma is_file_unlink: "p \<noteq> z \<Longrightarrow> is_file ((z, n) # unlink_fs f z) p = is_file f p"
  by (simp add: is_file_def unlink_fs_def map_of_filter_key)

lemma publish_not_zip: "strict_prefix (publish_dir env) p \<Longrightarrow> p \<noteq> zip_path env"
  by (auto simp: publish_dir_def zip_path_def strict_prefix_def prefix_def)

lemma rglob_unlink:
  "rglob (unlink_fs f (zip_path env)) (publish_dir env) = rglob f (publish_dir env)"
proof -
  have z: "\<not> strict_prefix (publish_dir env) (zip_path env)"
    using publish_not_zip by blast
  show ?thesis
    unfolding rglob_def unlink_fs_def using z by (induction f) (auto split: prod.splits)
qed

lemma rglob_after_create:
  "rglob ((zip_path env, File) # unlink_fs f (zip_path env)) (publish_dir env)
     = rglob f (publish_dir env)"
proof -
  have z: "\<not> strict_prefix (publish_dir env) (zip_path env)"
    using publish_not_zip by blast
  have "rglob ((zip_path env, File) # unlink_fs f (zip_path env)) (publish_dir env)
      = rglob (unlink_fs f (zip_path env)) (publish_dir env)"
    using z by (simp add: rglob_def)
  then show ?thesis
    by (simp add: rglob_unlink)
qed

lemma entries_after_create:
  "map (\<lambda>file. (file, relative_to file (publish_dir env)))
     (filter (is_file ((zip_path env, File) # unlink_fs f (zip_path env)))
        (rglob ((zip_path env, File) # unlink_fs f (zip_path env)) (publish_dir env)))
   = archive_entries env f"
proof -
  have "filter (is_file ((zip_path env, File) # unlink_fs f (zip_path env)))
          (rglob f (publish_dir env))
        = filter (is_file f) (rglob f (publish_dir env))"
    by (rule filter_cong) (auto simp: rglob_def is_file_unlink publish_not_zip)
  then show ?thesis
    by (simp add: archive_entries_def rglob_after_create)
qed

lemma st_bnd:
  "snd (snd (bnd m k s)) =
     (case fst (m s) of Inl e \<Rightarrow> snd (snd (m s)) | Inr x \<Rightarrow> snd (snd (k x (snd (snd (m s))))))"
  by (simp add: bnd_def split: prod.splits sum.splits)

lemma st_seq:
  "snd (snd (seq m n s)) =
     (case fst (m s) of Inl e \<Rightarrow> snd (snd (m s)) | Inr x \<Rightarrow> snd (snd (n (snd (snd (m s))))))"
  by (simp add: seq_def st_bnd)

lemma fst_try_finally:
  "fst (try_finally m h s) =
     (case fst (h (snd (snd (m s)))) of Inl e \<Rightarrow> Inl e | Inr _ \<Rightarrow> fst (m s))"
  by (simp add: try_finally_def split: prod.splits sum.splits)

lemma st_try_finally:
  "snd (snd (try_finally m h s)) = snd (snd (h (snd (snd (m s)))))"
  by (simp add: try_finally_def split: prod.splits sum.splits)

lemma clean_previous_builds_result:
  "fst (clean_previous_builds env s) = Inr ()"
  "snd (snd (clean_previous_builds env s)) = s\<lparr>fs := cleaned env (fs s)\<rparr>"
  by (simp_all add: clean_previous_builds_def cleaned_def prog_defs bin_dir_def obj_dir_def Let_def)

lemma run_command_succeeds:
  assumes "cmd \<noteq> []" "proc env cmd (cwd s) (fs s) (world s) = (Exited 0 out err, f, w)"
  shows "fst (run_command env cmd check cap s) = Inr (result_of cap 0 out err)"
    and "snd (snd (run_command env cmd check cap s)) = s\<lparr>fs := f, world := w\<rparr>"
  using assms
  by (simp_all add: run_command_def subprocess_run_def result_of_def prog_defs Let_def)

lemma write_zip_result:
  "fst (write_zip (zip_path env) (publish_dir env) s) = Inr ()"
  "snd (snd (write_zip (zip_path env) (publish_dir env) s))
     = s\<lparr>fs := (zip_path env, Archive (archive_entries env (fs s))) # unlink_fs (fs s) (zip_path env)\<rparr>"
  by (simp_all add: write_zip_def Let_def entries_after_create)

lemma unlink_twice: "unlink_fs (unlink_fs f z) z = unlink_fs f z"
  by (simp add: unlink_fs_def)

lemma archive_entries_unlink: "archive_entries env (unlink_fs f (zip_path env)) = archive_entries env f"
proof -
  have "filter (is_file (unlink_fs f (zip_path env))) (rglob f (publish_dir env))
      = filter (is_file f) (rglob f (publish_dir env))"
    by (rule filter_cong)
       (auto simp: rglob_def is_file_def unlink_fs_def map_of_filter_key publish_not_zip)
  then show ?thesis
    by (simp add: archive_entries_def rglob_unlink)
qed

lemma build_and_package_run:
  assumes "path_exists (fs s) (LAMBDA_DIR env)"
    and "proc env publish_cmd (LAMBDA_DIR env) (cleaned env (fs s)) (world s) = (Exited 0 out err, f, w)"
  shows "fst (build_and_package env s) = Inr (zip_path env)
       \<and> snd (snd (build_and_package env s))
           = s\<lparr>fs := (zip_path env, Archive (archive_entries env f)) # unlink_fs f (zip_path env),
               world := w\<rparr>"
proof -
  let ?s = "s\<lparr>cwd := LAMBDA_DIR env, fs := cleaned env (fs s)\<rparr>"
  have cmd: "publish_cmd \<noteq> []"
    by (simp add: publish_cmd_def)
  have p: "proc env publish_cmd (cwd ?s) (fs ?s) (world ?s) = (Exited 0 out err, f, w)"
    using assms(2) by simp
  note run = run_command_succeeds [OF cmd p, of True False]
  have folded: "[''dotnet'', ''publish'', ''-c'', ''Release'', ''-o'', ''publish''] = publish_cmd"
    "LAMBDA_DIR env @ [''lambda.zip''] = zip_path env"
    "LAMBDA_DIR env @ [''publish''] = publish_dir env"
    by (simp_all add: publish_cmd_def zip_path_def publish_dir_def)
  show ?thesis
    using assms(1)
    by (simp add: build_and_package_def folded fst_seq fst_bnd st_seq st_bnd fst_try_finally
          st_try_finally clean_previous_builds_result run write_zip_result
          print_step_def print_def exists_def when_do_def ret_def get_cwd_def chdir_def
          unlink_def Let_def unlink_twice archive_entries_unlink)
qed


lemma map_of_rmtree: "map_of (rmtree_fs f p) q = (if prefix p q then None else map_of f q)"
  using map_of_filter_key [of "\<lambda>q. \<not> prefix p q" f q] by (simp add: rmtree_fs_def)

lemma cleaned_bin_obj:
  "\<not> path_exists (cleaned env f) (bin_dir env)" "\<not> path_exists (cleaned env f) (obj_dir env)"
  by (auto simp: cleaned_def path_exists_def map_of_rmtree Let_def)

lemma cleaned_publish:
  assumes "prefix (publish_dir env) p"
  shows "map_of (cleaned env f) p = map_of f p"
proof -
  have "\<not> prefix (bin_dir env) p" "\<not> prefix (obj_dir env) p"
    using assms by (auto simp: prefix_def publish_dir_def bin_dir_def obj_dir_def)
  then show ?thesis
    by (simp add: cleaned_def map_of_rmtree Let_def)
qed

lemma set_archive_entries:
  "set (archive_entries env f)
     = {(p, relative_to p (publish_dir env)) | p. strict_prefix (publish_dir env) p \<and> is_file f p}"
proof -
  have "is_file f p \<Longrightarrow> p \<in> fst ` set f" for p
    by (cases "map_of f p") (auto simp: is_file_def dest: map_of_SomeD intro: rev_image_eqI)
  then show ?thesis
    by (auto simp: archive_entries_def rglob_def)
qed

lemma archive_entry:
  assumes "(file, arcname) \<in> set (archive_entries env f)"
  shows "is_file f file \<and> arcname \<noteq> [] \<and> file = publish_dir env @ arcname"
  using assms
  by (auto simp: set_archive_entries relative_to_def strict_prefix_def prefix_def)


lemmas build_defs = publish_cmd_def bin_dir_def obj_dir_def publish_dir_def zip_path_def

text \<open>
  What \<open>build_and_package\<close> does guarantee. When the Lambda directory exists and the
  publish command, started in it on the file system left by the clean-up, exits with 0:
  the function returns the path of \<open>lambda.zip\<close>; that path then holds an archive, whatever
  was there before; its entries are exactly the regular files strictly below the publish
  directory after the build, each under its path relative to that directory, so no
  directory and not the publish directory itself is an entry. The clean-up removes \<open>bin\<close>
  and \<open>obj\<close>; everything at or below the publish directory is left as it was. This holds
  from any file system, so also from the one an earlier run left.
\<close>

theorem package_contents:
  assumes "path_exists (fs s) (LAMBDA_DIR env)"
    and "proc env publish_cmd (LAMBDA_DIR env) (cleaned env (fs s)) (world s)
           = (Exited 0 out err, f, w)"
  shows "fst (build_and_package env s) = Inr (zip_path env)
       \<and> map_of (fs (snd (snd (build_and_package env s)))) (zip_path env)
           = Some (Archive (archive_entries env f))
       \<and> set (archive_entries env f)
           = {(p, relative_to p (publish_dir env)) | p.
                strict_prefix (publish_dir env) p \<and> is_file f p}
       \<and> (\<forall>(file, arcname) \<in> set (archive_entries env f).
             is_file f file \<and> arcname \<noteq> [] \<and> file = publish_dir env @ arcname)
       \<and> \<not> path_exists (cleaned env (fs s)) (bin_dir env)
       \<and> \<not> path_exists (cleaned env (fs s)) (obj_dir env)
       \<and> (\<forall>p. prefix (publish_dir env) p \<longrightarrow> map_of (cleaned env (fs s)) p = map_of (fs s) p)"
  using build_and_package_run [OF assms] set_archive_entries [of env f] archive_entry [of _ _ env f]
    cleaned_bin_obj [of env "fs s"] cleaned_publish [of env _ "fs s"]
  by auto

lemma first_build_value:
  "first_build =
     \<lparr>cwd = [''home'', ''dev''],
      fs = [([''repo'', ''src'', ''dotnet'', ''SimpleLambda'', ''lambda.zip''],
             Archive [([''repo'', ''src'', ''dotnet'', ''SimpleLambda'', ''publish'', ''a.dll''],
                       [''a.dll''])]),
            ([''repo'', ''src'', ''dotnet'', ''SimpleLambda'', ''publish'', ''a.dll''], File),
            ([''repo'', ''src'', ''dotnet'', ''SimpleLambda'', ''publish''], Dir),
            ([''repo'', ''src'', ''dotnet'', ''SimpleLambda'', ''obj''], Dir),
            ([''repo'', ''src'', ''dotnet'', ''SimpleLambda'', ''bin''], Dir),
            ([''repo''], Dir), ([''repo'', ''docker-compose.yml''], File),
            ([''repo'', ''src'', ''dotnet'', ''SimpleLambda''], Dir)],
      world = 1\<rparr>"
  by code_simp

theorem package_contents_witness:
  "fst (build_and_package build_env demo_state) = Inr (zip_path build_env)
   \<and> fst (build_and_package build_env first_build) = Inr (zip_path build_env)
   \<and> path_exists (fs first_build) (bin_dir build_env)
   \<and> \<not> path_exists (cleaned build_env (fs first_build)) (bin_dir build_env)"
proof -
  have there: "path_exists (fs demo_state) (LAMBDA_DIR build_env)"
    "path_exists (fs first_build) (LAMBDA_DIR build_env)"
    "path_exists (fs first_build) (bin_dir build_env)"
    by code_simp+
  have "fst (proc build_env publish_cmd (LAMBDA_DIR build_env) f w) = Exited 0 [] []" for f w
    by (simp add: demo_defs)
  then obtain f1 w1 f2 w2 where
    one: "proc build_env publish_cmd (LAMBDA_DIR build_env)
            (cleaned build_env (fs demo_state)) (world demo_state) = (Exited 0 [] [], f1, w1)"
    and two: "proc build_env publish_cmd (LAMBDA_DIR build_env)
            (cleaned build_env (fs first_build)) (world first_build) = (Exited 0 [] [], f2, w2)"
    by (metis prod.collapse)
  show ?thesis
    using package_contents [OF there(1) one] package_contents [OF there(2) two] there(3)
    by simp
qed

text \<open>
  C5: the code at the input where it departs from the claim. The first run published
  \<open>a.dll\<close>; the second run is started on the file system the first one left, and its
  build publishes \<open>b.dll\<close> only. The block under \<open>Clean previous builds\<close> has removed
  \<open>bin\<close> but not the output of the first run under \<open>publish\<close>: \<open>a.dll\<close> is still there
  when the second build starts, the second run returns normally, and its archive holds
  \<open>a.dll\<close> beside \<open>b.dll\<close>.
\<close>

theorem stale_file_packaged:
  "path_exists (fs first_build) (bin_dir build_env)
   \<and> \<not> path_exists (cleaned build_env (fs first_build)) (bin_dir build_env)
   \<and> path_exists (cleaned build_env (fs first_build)) (publish_dir build_env @ [''a.dll''])
   \<and> fst (build_and_package build_env first_build) = Inr (zip_path build_env)
   \<and> map_of (fs second_build) (zip_path build_env)
       = Some (Archive [(publish_dir build_env @ [''b.dll''], [''b.dll'']),
                        (publish_dir build_env @ [''a.dll''], [''a.dll''])])"
  by code_simp


end
